theory Spec2Isabelle
  imports Complex_Main
begin

section \<open>Conventions of the embedding\<close>

text \<open>
  The program is a JavaScript game: a player, vehicles, a physics facade and a mission
  system, all mutable objects that refer to each other. The embedding keeps every object
  in a store indexed by a reference (a natural number), so that two references to the same
  object see the same updates, and passes the store through each method.

  JavaScript numbers are modelled as real numbers: the arithmetic of the methods below
  (\<open>+\<close>, \<open>-\<close>, \<open>*\<close>, \<open>/\<close>, \<open>Math.max\<close>, \<open>Math.min\<close>, \<open>Math.sqrt\<close>) is taken as exact,
  and \<open>NaN\<close> and the infinities are outside the model. A numeric field read through
  \<open>v || 0\<close> is then the number itself.

  Statements that only draw (console output, DOM nodes, scene-graph insertion) are left
  out; a visual property is kept where a method's effect can only be observed through it.
\<close>

type_synonym vehicle_ref = nat
type_synonym player_ref = nat
type_synonym body_ref = nat
type_synonym mesh_ref = nat

record vec3 =
  vx :: real
  vy :: real
  vz :: real

definition vec3_length :: "vec3 \<Rightarrow> real" where
  "vec3_length v = sqrt (vx v * vx v + vy v * vy v + vz v * vz v)"

section \<open>Physics bodies and the render link (Physics.js)\<close>

text \<open>
  \<open>userData\<close> of a body is either absent or a JavaScript object; the object is an
  association from property names to values. Only the properties the program stores
  are modelled.
\<close>

datatype ud_value =
    UdString string
  | UdVehicle vehicle_ref
  | UdMesh mesh_ref

type_synonym user_data = "(string \<times> ud_value) list"

record Body =
  velocity :: vec3
  body_position :: vec3
  sleeping :: bool
  userData :: "user_data option"

record Physics =
  bodies :: "body_ref \<Rightarrow> Body"
  objects :: "(mesh_ref \<times> body_ref) list"

text \<open>\<open>Physics.addObject(mesh, body)\<close>: \<open>body.userData = { mesh }\<close>, then the pair is pushed.\<close>

definition addObject :: "mesh_ref \<Rightarrow> body_ref \<Rightarrow> Physics \<Rightarrow> Physics" where
  "addObject mesh body ph =
     ph\<lparr> bodies := (bodies ph)(body := (bodies ph body)\<lparr> userData := Some [(''mesh'', UdMesh mesh)] \<rparr>),
         objects := objects ph @ [(mesh, body)] \<rparr>"

text \<open>
  \<open>Body.sleep()\<close> and \<open>Body.wakeUp()\<close> of the physics library (cannon-es 0.20.0, the
  version the project's package file asks for): \<open>sleep()\<close> marks the body as sleeping and
  sets its velocity to zero (its angular velocity too, which is not modelled); \<open>wakeUp()\<close>
  marks it as awake.
\<close>

definition Body_sleep :: "Body \<Rightarrow> Body" where
  "Body_sleep b = b\<lparr> sleeping := True, velocity := \<lparr> vx = 0, vy = 0, vz = 0 \<rparr> \<rparr>"

definition Body_wakeUp :: "Body \<Rightarrow> Body" where
  "Body_wakeUp b = b\<lparr> sleeping := False \<rparr>"

text \<open>\<open>Physics.setVelocity(body, velocity)\<close>: \<open>body.velocity.copy(velocity)\<close>.\<close>

definition setVelocity :: "body_ref \<Rightarrow> vec3 \<Rightarrow> Physics \<Rightarrow> Physics" where
  "setVelocity body v ph = ph\<lparr> bodies := (bodies ph)(body := (bodies ph body)\<lparr> velocity := v \<rparr>) \<rparr>"

text \<open>
  The test \<open>b.userData && b.userData.type === t\<close> that \<open>Player.setupCollisionHandling\<close>,
  \<open>Player.checkForNearbyVehicles\<close> and \<open>Player.performWeaponRaycast\<close> apply to a body.
\<close>

definition userData_type_is :: "string \<Rightarrow> Body \<Rightarrow> bool" where
  "userData_type_is t b =
     (case userData b of
        None \<Rightarrow> False
      | Some ud \<Rightarrow> map_of ud ''type'' = Some (UdString t))"

section \<open>Vehicles (Vehicle.js)\<close>

record Dimensions =
  dim_length :: real
  dim_width :: real
  dim_height :: real

record VehicleOptions =
  vehicle_type :: string
  maxSpeed :: real
  acceleration :: real
  handling :: real
  braking :: real
  dimensions :: Dimensions

record VehicleControls =
  throttle :: real
  brake :: real
  steering :: real
  handbrake :: bool

text \<open>
  The raycast vehicle of the physics library (cannon-es): per wheel the steering angle,
  the engine force and the brake force that \<open>setSteeringValue\<close>, \<open>applyEngineForce\<close> and
  \<open>setBrake\<close> store at the given wheel index.
\<close>

record WheelInfo =
  wheel_steering :: real
  wheel_engineForce :: real
  wheel_brake :: real

record RaycastVehicle =
  maxForce :: real
  maxBrake :: real
  steeringClamp :: real
  wheelInfos :: "WheelInfo list"

datatype driver_ref = PlayerDriver player_ref | OtherDriver nat

record VehicleState =
  health :: real
  fuel :: real
  speed :: real
  engineOn :: bool
  handbrakeActive :: bool
  headlightsOn :: bool
  hornActive :: bool
  damaged :: bool
  driver :: "driver_ref option"

record Material =
  color :: nat
  roughness :: real
  metalness :: real

record Vehicle =
  options :: VehicleOptions
  state :: VehicleState
  controls :: VehicleControls
  vehicle :: RaycastVehicle
  chassisBody :: "body_ref option"
  group :: mesh_ref
  body_material :: Material
  brakelights :: "real list"
  exitPoints :: "vec3 \<times> vec3 \<times> vec3 \<times> vec3"
  matrixWorld :: "vec3 \<Rightarrow> vec3"

definition setSteeringValue :: "real \<Rightarrow> nat \<Rightarrow> RaycastVehicle \<Rightarrow> RaycastVehicle" where
  "setSteeringValue val i rv =
     rv\<lparr> wheelInfos := (wheelInfos rv)[i := (wheelInfos rv ! i)\<lparr> wheel_steering := val \<rparr>] \<rparr>"

definition applyEngineForce :: "real \<Rightarrow> nat \<Rightarrow> RaycastVehicle \<Rightarrow> RaycastVehicle" where
  "applyEngineForce val i rv =
     rv\<lparr> wheelInfos := (wheelInfos rv)[i := (wheelInfos rv ! i)\<lparr> wheel_engineForce := val \<rparr>] \<rparr>"

definition setBrake :: "real \<Rightarrow> nat \<Rightarrow> RaycastVehicle \<Rightarrow> RaycastVehicle" where
  "setBrake val i rv =
     rv\<lparr> wheelInfos := (wheelInfos rv)[i := (wheelInfos rv ! i)\<lparr> wheel_brake := val \<rparr>] \<rparr>"

text \<open>
  The part of \<open>Vehicle.createVehiclePhysics\<close> that picks the steering clamp from the
  vehicle type.
\<close>

definition steeringClamp_of_type :: "string \<Rightarrow> real" where
  "steeringClamp_of_type t =
     (if t = ''sports'' then 0.6 else if t = ''truck'' then 0.4 else 0.5)"

definition startEngine :: "Vehicle \<Rightarrow> Vehicle" where
  "startEngine v =
     (if \<not> engineOn (state v) then v\<lparr> state := (state v)\<lparr> engineOn := True \<rparr> \<rparr> else v)"

definition stopEngine :: "Vehicle \<Rightarrow> Vehicle" where
  "stopEngine v =
     (if engineOn (state v) then
        v\<lparr> state := (state v)\<lparr> engineOn := False \<rparr>,
           controls := \<lparr> throttle = 0, brake = 0, steering = 0, handbrake = False \<rparr>,
           vehicle := fold (\<lambda>i rv. setBrake 10 i (applyEngineForce 0 i rv)) [0..<4] (vehicle v) \<rparr>
      else v)"

definition updateBrakeLights :: "bool \<Rightarrow> Vehicle \<Rightarrow> Vehicle" where
  "updateBrakeLights active v =
     v\<lparr> brakelights := map (\<lambda>_. if active then 1 else 0) (brakelights v) \<rparr>"

definition applyControls :: "VehicleControls \<Rightarrow> Vehicle \<Rightarrow> Vehicle" where
  "applyControls c v0 =
     (let v1 = (if \<not> engineOn (state v0) \<and> (throttle c > 0 \<or> brake c > 0)
                then startEngine v0 else v0);
          v2 = v1\<lparr> controls := \<lparr> throttle = throttle c, brake = brake c,
                                  steering = steering c, handbrake = handbrake c \<rparr> \<rparr>;
          speedFactor = max 0.5 (1 - speed (state v2) / maxSpeed (options v2));
          steeringValue = steering (controls v2) * steeringClamp (vehicle v2) * speedFactor;
          rv1 = fold (\<lambda>i. setSteeringValue steeringValue i) [0..<2] (vehicle v2);
          engineForce = throttle (controls v2) * maxForce rv1;
          rv2 = fold (\<lambda>i. applyEngineForce engineForce i) [2..<4] rv1;
          brakeForce = brake (controls v2) * maxBrake rv2;
          rv3 = fold (\<lambda>i. setBrake brakeForce i) [0..<4] rv2;
          v3 = (if handbrake (controls v2) then
                  v2\<lparr> vehicle := fold (\<lambda>i. setBrake (maxBrake rv3 * 2) i) [2..<4] rv3,
                      state := (state v2)\<lparr> handbrakeActive := True \<rparr> \<rparr>
                else
                  v2\<lparr> vehicle := rv3,
                      state := (state v2)\<lparr> handbrakeActive := False \<rparr> \<rparr>)
      in updateBrakeLights (brake (controls v3) > 0 \<or> handbrake (controls v3)) v3)"

definition setDriver :: "driver_ref \<Rightarrow> Vehicle \<Rightarrow> Vehicle" where
  "setDriver d v = startEngine (v\<lparr> state := (state v)\<lparr> driver := Some d \<rparr> \<rparr>)"

definition removeDriver :: "Vehicle \<Rightarrow> Vehicle" where
  "removeDriver v = stopEngine (v\<lparr> state := (state v)\<lparr> driver := None \<rparr> \<rparr>)"

definition applyDamageVisuals :: "Vehicle \<Rightarrow> Vehicle" where
  "applyDamageVisuals v =
     v\<lparr> body_material := (body_material v)\<lparr> roughness := roughness (body_material v) + 0.3,
                                           metalness := metalness (body_material v) - 0.2 \<rparr> \<rparr>"

definition resetDamageVisuals :: "Vehicle \<Rightarrow> Vehicle" where
  "resetDamageVisuals v =
     v\<lparr> body_material := (body_material v)\<lparr> roughness := 0.3, metalness := 0.7 \<rparr> \<rparr>"

text \<open>\<open>Vehicle.repair(amount)\<close> returns the health actually gained.\<close>

definition repair :: "real \<Rightarrow> Vehicle \<Rightarrow> real \<times> Vehicle" where
  "repair amount v =
     (let oldHealth = health (state v);
          v1 = v\<lparr> state := (state v)\<lparr> health := min 100 (health (state v) + amount) \<rparr> \<rparr>;
          v2 = (if health (state v1) \<ge> 50 \<and> damaged (state v1)
                then resetDamageVisuals (v1\<lparr> state := (state v1)\<lparr> damaged := False \<rparr> \<rparr>)
                else v1)
      in (health (state v2) - oldHealth, v2))"

definition addFuel :: "real \<Rightarrow> Vehicle \<Rightarrow> real \<times> Vehicle" where
  "addFuel amount v =
     (let oldFuel = fuel (state v);
          v1 = v\<lparr> state := (state v)\<lparr> fuel := min 100 (fuel (state v) + amount) \<rparr> \<rparr>
      in (fuel (state v1) - oldFuel, v1))"

text \<open>
  \<open>Vehicle.createExitPoints\<close>: the array of four exit points in the vehicle's own
  coordinates, the driver side first.
\<close>

definition createExitPoints :: "Dimensions \<Rightarrow> vec3 \<times> vec3 \<times> vec3 \<times> vec3" where
  "createExitPoints d =
     (\<lparr> vx = - dim_width d - 1.0, vy = 0, vz = dim_length d / 6 \<rparr>,
      \<lparr> vx = dim_width d + 1.0, vy = 0, vz = dim_length d / 6 \<rparr>,
      \<lparr> vx = - dim_width d - 1.0, vy = 0, vz = - dim_length d / 6 \<rparr>,
      \<lparr> vx = dim_width d + 1.0, vy = 0, vz = - dim_length d / 6 \<rparr>)"

text \<open>
  \<open>Vehicle.getExitPosition\<close>: \<open>exitPoints[0]\<close> taken to world coordinates by the group's
  world matrix (the field \<open>matrixWorld\<close>, the map on points that the scene library keeps
  for the group), then lifted to height 0.5.
\<close>

definition getExitPosition :: "Vehicle \<Rightarrow> vec3" where
  "getExitPosition v =
     (let worldExitPos = matrixWorld v (fst (exitPoints v))
      in worldExitPos\<lparr> vy := max 0.5 (vy worldExitPos) \<rparr>)"

text \<open>
  \<open>Vehicle.update(deltaTime)\<close>, given the chassis body's velocity: the speed in km/h, then
  the fuel consumption while the engine is on. The wheel meshes' rotation is not modelled.
\<close>

definition Vehicle_update :: "real \<Rightarrow> (body_ref \<Rightarrow> Body) \<Rightarrow> Vehicle \<Rightarrow> Vehicle" where
  "Vehicle_update deltaTime bs v =
     (case chassisBody v of
        None \<Rightarrow> v
      | Some cb \<Rightarrow>
          (let v1 = v\<lparr> state := (state v)\<lparr> speed := vec3_length (velocity (bs cb)) * 3.6 \<rparr> \<rparr>
           in if engineOn (state v1) then
                (let fuelConsumption = 0.01 * deltaTime + throttle (controls v1) * 0.05 * deltaTime;
                     v2 = v1\<lparr> state := (state v1)\<lparr> fuel := max 0 (fuel (state v1) - fuelConsumption) \<rparr> \<rparr>
                 in if fuel (state v2) \<le> 0 \<and> engineOn (state v2) then stopEngine v2 else v2)
              else v1))"

section \<open>Input state (Controls.js)\<close>

datatype control_mode = MODE_CHARACTER | MODE_VEHICLE

datatype view_mode = VIEW_FIRST_PERSON | VIEW_THIRD_PERSON

record Actions =
  act_moveForward :: bool
  act_moveBackward :: bool
  act_moveLeft :: bool
  act_moveRight :: bool
  act_jump :: bool
  act_sprint :: bool
  act_crouch :: bool
  act_enterVehicle :: bool
  act_exitVehicle :: bool
  act_handbrake :: bool
  act_shoot :: bool
  act_reload :: bool
  act_switchWeapon :: bool
  act_interact :: bool
  act_aim :: bool
  act_enter :: bool
  act_horn :: bool
  act_headlights :: bool
  act_radio :: bool

record Controls =
  keys :: "string \<Rightarrow> bool"
  mouseButtons :: "nat \<Rightarrow> bool"
  mouseDeltaX :: real
  controlMode :: control_mode
  viewMode :: view_mode
  isPointerLocked :: bool
  cameraRotationY :: real
  previousF5State :: bool
  actions :: Actions

definition all_actions_false :: "Actions \<Rightarrow> Actions" where
  "all_actions_false a =
     a\<lparr> act_moveForward := False, act_moveBackward := False, act_moveLeft := False,
        act_moveRight := False, act_jump := False, act_sprint := False, act_crouch := False,
        act_enterVehicle := False, act_exitVehicle := False, act_handbrake := False,
        act_shoot := False, act_reload := False, act_switchWeapon := False,
        act_interact := False, act_aim := False, act_enter := False, act_horn := False,
        act_headlights := False, act_radio := False \<rparr>"

definition updateActionsFromKeys :: "Controls \<Rightarrow> Controls" where
  "updateActionsFromKeys c =
     (let a0 = (actions c)\<lparr> act_enter := keys c ''KeyE'' \<rparr>
      in case controlMode c of
           MODE_CHARACTER \<Rightarrow>
             c\<lparr> actions := a0\<lparr> act_moveForward := keys c ''KeyW'',
                               act_moveBackward := keys c ''KeyS'',
                               act_moveLeft := keys c ''KeyA'',
                               act_moveRight := keys c ''KeyD'',
                               act_jump := keys c ''Space'',
                               act_sprint := keys c ''ShiftLeft'',
                               act_crouch := keys c ''ControlLeft'',
                               act_enterVehicle := keys c ''KeyF'',
                               act_interact := keys c ''KeyE'',
                               act_shoot := mouseButtons c 0,
                               act_aim := mouseButtons c 2,
                               act_reload := keys c ''KeyR'',
                               act_switchWeapon := keys c ''Tab'' \<rparr> \<rparr>
         | MODE_VEHICLE \<Rightarrow>
             c\<lparr> actions := a0\<lparr> act_moveForward := keys c ''KeyW'',
                               act_moveBackward := keys c ''KeyS'',
                               act_moveLeft := keys c ''KeyA'',
                               act_moveRight := keys c ''KeyD'',
                               act_handbrake := keys c ''Space'',
                               act_exitVehicle := keys c ''KeyF'',
                               act_horn := keys c ''KeyH'',
                               act_headlights := keys c ''KeyL'',
                               act_radio := keys c ''KeyR'' \<rparr> \<rparr>)"

definition setControlMode :: "control_mode \<Rightarrow> Controls \<Rightarrow> Controls" where
  "setControlMode m c =
     updateActionsFromKeys (c\<lparr> controlMode := m, actions := all_actions_false (actions c) \<rparr>)"

definition toggleViewMode :: "Controls \<Rightarrow> Controls" where
  "toggleViewMode c =
     (if viewMode c = VIEW_FIRST_PERSON then c\<lparr> viewMode := VIEW_THIRD_PERSON \<rparr>
      else c\<lparr> viewMode := VIEW_FIRST_PERSON \<rparr>)"

definition Controls_update :: "real \<Rightarrow> Controls \<Rightarrow> Controls" where
  "Controls_update deltaTime c =
     (let c1 = (if keys c ''F5'' \<and> \<not> previousF5State c then toggleViewMode c else c)
      in c1\<lparr> previousF5State := keys c1 ''F5'' \<rparr>)"

text \<open>
  \<open>Controls.getMovementDirection\<close>: the key directions summed, normalised when not zero,
  and multiplied by 1.8 while the sprint action is held.
\<close>

definition vec3_scale :: "real \<Rightarrow> vec3 \<Rightarrow> vec3" where
  "vec3_scale k v = \<lparr> vx = vx v * k, vy = vy v * k, vz = vz v * k \<rparr>"

definition vec3_normalize :: "vec3 \<Rightarrow> vec3" where
  "vec3_normalize v =
     (let l = (if vec3_length v = 0 then 1 else vec3_length v)
      in \<lparr> vx = vx v / l, vy = vy v / l, vz = vz v / l \<rparr>)"

definition getMovementDirection :: "Controls \<Rightarrow> vec3" where
  "getMovementDirection c =
     (let a = actions c;
          z1 = (if act_moveForward a then 0 - 1 else 0);
          z2 = (if act_moveBackward a then z1 + 1 else z1);
          x1 = (if act_moveLeft a then 0 - 1 else 0);
          x2 = (if act_moveRight a then x1 + 1 else x1);
          d0 = \<lparr> vx = x2, vy = 0, vz = z2 \<rparr>;
          d1 = (if vec3_length d0 > 0 then vec3_normalize d0 else d0)
      in if act_sprint a then vec3_scale 1.8 d1 else d1)"

definition getVehicleControls :: "Controls \<Rightarrow> VehicleControls" where
  "getVehicleControls c =
     (let a = actions c;
          th = (if act_moveForward a then 1 else 0);
          br = (if act_moveBackward a then 1 else 0);
          s1 = (if act_moveLeft a then - 1 else 0);
          s2 = (if act_moveRight a then 1 else s1);
          s3 = (if viewMode c = VIEW_FIRST_PERSON \<and> isPointerLocked c
                then max (- 1) (min 1 (s2 + mouseDeltaX c * 0.01)) else s2)
      in \<lparr> throttle = th, brake = br, steering = s3, handbrake = act_handbrake a \<rparr>)"

section \<open>The player (Player.js) and the world of objects\<close>

record Item =
  item_id :: string
  item_name :: string
  item_type :: string
  item_value :: real
  item_ammo :: real

record Stats =
  stats_health :: real
  maxHealth :: real
  stamina :: real
  maxStamina :: real
  money :: real
  wanted :: real

text \<open>
  Items are objects: the same item object can be a mission's reward, an entry of the
  player's weapon list and the equipped weapon at once, so items live in a store and the
  inventory holds references.
\<close>

type_synonym item_ref = nat

record Inventory =
  weapons :: "item_ref list"
  items :: "item_ref list"
  currentWeapon :: "item_ref option"
  maxItems :: nat

record Player =
  p_position :: vec3
  p_velocity :: vec3
  isGrounded :: bool
  isJumping :: bool
  isInVehicle :: bool
  currentVehicle :: "vehicle_ref option"
  stats :: Stats
  inventory :: Inventory
  walkSpeed :: real
  runSpeed :: real
  jumpForce :: real
  p_body :: body_ref
  group_visible :: bool
  p_controls :: Controls

record World =
  players :: "player_ref \<Rightarrow> Player"
  vehicles :: "vehicle_ref \<Rightarrow> Vehicle"
  physics :: Physics
  item_store :: "item_ref \<Rightarrow> Item"

definition set_player :: "player_ref \<Rightarrow> Player \<Rightarrow> World \<Rightarrow> World" where
  "set_player p pl w = w\<lparr> players := (players w)(p := pl) \<rparr>"

definition set_vehicle :: "vehicle_ref \<Rightarrow> Vehicle \<Rightarrow> World \<Rightarrow> World" where
  "set_vehicle i v w = w\<lparr> vehicles := (vehicles w)(i := v) \<rparr>"

definition set_body :: "body_ref \<Rightarrow> Body \<Rightarrow> World \<Rightarrow> World" where
  "set_body b bd w = w\<lparr> physics := (physics w)\<lparr> bodies := (bodies (physics w))(b := bd) \<rparr> \<rparr>"

text \<open>
  \<open>Player.enterVehicle(vehicle)\<close>. The argument may be \<open>null\<close> or \<open>undefined\<close>
  (\<open>None\<close>). The only guard is \<open>!vehicle || this.isInVehicle\<close>.
\<close>

definition enterVehicle :: "player_ref \<Rightarrow> vehicle_ref option \<Rightarrow> World \<Rightarrow> World" where
  "enterVehicle p vo w =
     (case vo of
        None \<Rightarrow> w
      | Some vr \<Rightarrow>
          if isInVehicle (players w p) then w
          else
            (let pl = players w p;
                 pl1 = pl\<lparr> currentVehicle := Some vr, isInVehicle := True,
                          group_visible := False \<rparr>;
                 w1 = set_player p pl1 w;
                 w2 = set_body (p_body pl1) (Body_sleep (bodies (physics w1) (p_body pl1))) w1;
                 w3 = set_player p (pl1\<lparr> p_controls := setControlMode MODE_VEHICLE (p_controls pl1) \<rparr>) w2
             in set_vehicle vr (setDriver (PlayerDriver p) (vehicles w3 vr)) w3))"

text \<open>\<open>Player.exitVehicle()\<close>.\<close>

definition exitVehicle :: "player_ref \<Rightarrow> World \<Rightarrow> World" where
  "exitVehicle p w =
     (let pl = players w p
      in case currentVehicle pl of
           None \<Rightarrow> w
         | Some vr \<Rightarrow>
             if \<not> isInVehicle pl then w
             else
               (let exitPosition = getExitPosition (vehicles w vr);
                    pl1 = pl\<lparr> p_position := exitPosition, group_visible := True \<rparr>;
                    w1 = set_body (p_body pl)
                           (Body_wakeUp ((bodies (physics w) (p_body pl))
                                           \<lparr> body_position := exitPosition \<rparr>)) w;
                    pl2 = pl1\<lparr> p_controls := setControlMode MODE_CHARACTER (p_controls pl1) \<rparr>;
                    w2 = set_vehicle vr (removeDriver (vehicles w1 vr)) w1
                in set_player p (pl2\<lparr> currentVehicle := None, isInVehicle := False \<rparr>) w2))"

text \<open>
  \<open>Vehicle.destroy()\<close>: a driver that has an \<open>exitVehicle\<close> method is asked to leave (of the
  classes of the program only \<open>Player\<close> has one), then the body is blackened.
\<close>

definition destroy :: "vehicle_ref \<Rightarrow> World \<Rightarrow> World" where
  "destroy vr w =
     (let w1 = (case driver (state (vehicles w vr)) of
                  Some (PlayerDriver p) \<Rightarrow> exitVehicle p w
                | _ \<Rightarrow> w);
          v = vehicles w1 vr
      in set_vehicle vr
           (v\<lparr> body_material := \<lparr> color = 0x111111, roughness = 1, metalness = 0 \<rparr> \<rparr>) w1)"

text \<open>\<open>Vehicle.takeDamage(amount)\<close>.\<close>

definition takeDamage :: "vehicle_ref \<Rightarrow> real \<Rightarrow> World \<Rightarrow> World" where
  "takeDamage vr amount w =
     (let v = vehicles w vr;
          v1 = v\<lparr> state := (state v)\<lparr> health := max 0 (health (state v) - amount) \<rparr> \<rparr>;
          v2 = (if health (state v1) < 50 \<and> \<not> damaged (state v1)
                then applyDamageVisuals (v1\<lparr> state := (state v1)\<lparr> damaged := True \<rparr> \<rparr>)
                else v1);
          w1 = set_vehicle vr v2 w
      in if health (state v2) \<le> 0 then destroy vr w1 else w1)"

text \<open>\<open>Vehicle.repair\<close> on a vehicle of the world.\<close>

definition repair_in :: "vehicle_ref \<Rightarrow> real \<Rightarrow> World \<Rightarrow> real \<times> World" where
  "repair_in vr amount w =
     (let (r, v) = repair amount (vehicles w vr) in (r, set_vehicle vr v w))"

section \<open>Constructing a vehicle\<close>

text \<open>
  The options object a caller passes to \<open>new Vehicle\<close>; each property may be missing, and
  a falsy one (\<open>0\<close>, the empty string) is replaced by the default through \<open>||\<close>.
\<close>

record VehicleOptionsInput =
  in_type :: "string option"
  in_color :: "nat option"
  in_maxSpeed :: "real option"
  in_acceleration :: "real option"
  in_handling :: "real option"
  in_braking :: "real option"
  in_dimensions :: "Dimensions option"

definition num_or :: "real option \<Rightarrow> real \<Rightarrow> real" where
  "num_or x d = (case x of None \<Rightarrow> d | Some n \<Rightarrow> if n = 0 then d else n)"

definition nat_or :: "nat option \<Rightarrow> nat \<Rightarrow> nat" where
  "nat_or x d = (case x of None \<Rightarrow> d | Some n \<Rightarrow> if n = 0 then d else n)"

definition str_or :: "string option \<Rightarrow> string \<Rightarrow> string" where
  "str_or x d = (case x of None \<Rightarrow> d | Some t \<Rightarrow> if t = [] then d else t)"

text \<open>
  \<open>Vehicle.createVehiclePhysics\<close>: the raycast vehicle with its four wheels comes from
  \<open>Physics.createVehicle\<close> (whose new chassis body is the reference \<open>cb\<close>); the chassis
  body is tagged and then linked to the vehicle's group with \<open>Physics.addObject\<close>.
\<close>

definition createVehiclePhysics ::
  "vehicle_ref \<Rightarrow> string \<Rightarrow> body_ref \<Rightarrow> World \<Rightarrow> World" where
  "createVehiclePhysics vr ident cb w =
     (let v = vehicles w vr;
          rv = \<lparr> maxForce = 800 * acceleration (options v),
                 maxBrake = 50 * braking (options v),
                 steeringClamp = steeringClamp_of_type (vehicle_type (options v)),
                 wheelInfos = replicate 4 \<lparr> wheel_steering = 0, wheel_engineForce = 0,
                                             wheel_brake = 0 \<rparr> \<rparr>;
          w1 = set_vehicle vr (v\<lparr> vehicle := rv, chassisBody := Some cb \<rparr>) w;
          w2 = set_body cb
                 ((bodies (physics w1) cb)
                    \<lparr> userData := Some [(''type'', UdString ''vehicle''),
                                        (''vehicle'', UdVehicle vr),
                                        (''id'', UdString ident)] \<rparr>) w1
      in w2\<lparr> physics := addObject (group (vehicles w2 vr)) cb (physics w2) \<rparr>)"

text \<open>
  The constructor \<open>new Vehicle(scene, physics, options)\<close>, storing the new object at the
  reference \<open>vr\<close>. The identifier \<open>ident\<close> is the random string the constructor draws and
  \<open>g\<close> the group mesh it creates. The group's world matrix is the identity until the
  scene is rendered.
\<close>

definition default_dimensions :: Dimensions where
  "default_dimensions = \<lparr> dim_length = 4.5, dim_width = 1.8, dim_height = 1.4 \<rparr>"

definition Vehicle_new ::
  "vehicle_ref \<Rightarrow> VehicleOptionsInput \<Rightarrow> string \<Rightarrow> mesh_ref \<Rightarrow> body_ref \<Rightarrow> World \<Rightarrow> World" where
  "Vehicle_new vr inp ident g cb w =
     (let opts = \<lparr> vehicle_type = str_or (in_type inp) ''sedan'',
                     maxSpeed = num_or (in_maxSpeed inp) 150,
                     acceleration = num_or (in_acceleration inp) 10,
                     handling = num_or (in_handling inp) 0.7,
                     braking = num_or (in_braking inp) 0.8,
                     dimensions = (case in_dimensions inp of
                                     None \<Rightarrow> default_dimensions
                                   | Some d \<Rightarrow> d) \<rparr>;
          v = \<lparr> options = opts,
                state = \<lparr> health = 100, fuel = 100, speed = 0, engineOn = False,
                           handbrakeActive = False, headlightsOn = False, hornActive = False,
                           damaged = False, driver = None \<rparr>,
                controls = \<lparr> throttle = 0, brake = 0, steering = 0, handbrake = False \<rparr>,
                vehicle = \<lparr> maxForce = 0, maxBrake = 0, steeringClamp = 0, wheelInfos = [] \<rparr>,
                chassisBody = None,
                group = g,
                body_material = \<lparr> color = nat_or (in_color inp) 0x333333,
                                   roughness = 0.3, metalness = 0.7 \<rparr>,
                brakelights = [0, 0],
                exitPoints = createExitPoints (dimensions opts),
                matrixWorld = (\<lambda>v. v) \<rparr>
      in createVehiclePhysics vr ident cb (set_vehicle vr v w))"

section \<open>The player's update\<close>

text \<open>
  A method that throws leaves the store as it was at the throw; the animation loop runs
  the next frame on that store.
\<close>

datatype outcome = Returned World | Threw World

definition world_of :: "outcome \<Rightarrow> World" where
  "world_of r = (case r of Returned w \<Rightarrow> w | Threw w \<Rightarrow> w)"

text \<open>
  \<open>v.applyEuler(new THREE.Euler(0, a, 0))\<close>: the rotation about the vertical axis that the
  scene library applies.
\<close>

definition applyEulerY :: "real \<Rightarrow> vec3 \<Rightarrow> vec3" where
  "applyEulerY a v =
     \<lparr> vx = vx v * cos a + vz v * sin a, vy = vy v, vz = vz v * cos a - vx v * sin a \<rparr>"

definition userData_vehicle :: "Body \<Rightarrow> vehicle_ref option" where
  "userData_vehicle b =
     (case userData b of
        None \<Rightarrow> None
      | Some ud \<Rightarrow> (case map_of ud ''vehicle'' of Some (UdVehicle vr) \<Rightarrow> Some vr | _ \<Rightarrow> None))"

text \<open>
  \<open>Player.checkForNearbyVehicles\<close>: one ray per direction; \<open>rays\<close> lists what each ray hits
  (the physics engine's answer), and the loop stops at the first body tagged as a vehicle.
\<close>

fun checkRays :: "player_ref \<Rightarrow> body_ref option list \<Rightarrow> World \<Rightarrow> World" where
  "checkRays p [] w = w"
| "checkRays p (r # rs) w =
     (case r of
        None \<Rightarrow> checkRays p rs w
      | Some b \<Rightarrow>
          if userData_type_is ''vehicle'' (bodies (physics w) b)
          then enterVehicle p (userData_vehicle (bodies (physics w) b)) w
          else checkRays p rs w)"

definition checkForNearbyVehicles :: "player_ref \<Rightarrow> (nat \<Rightarrow> body_ref option) \<Rightarrow> World \<Rightarrow> World" where
  "checkForNearbyVehicles p rays w = checkRays p (map rays [0..<4]) w"

text \<open>
  \<open>Player.updateOnFoot(deltaTime)\<close>, in two parts. The first part works on the player
  object alone: the movement direction turned by the camera angle, the speed chosen from
  the sprint action and the stamina, the stamina drained while sprinting, the horizontal
  velocity, and the jump. The player's facing angle (the \<open>atan2\<close> of the direction) only
  turns the mesh and is not modelled.
\<close>

definition rotatedDirection :: "Controls \<Rightarrow> vec3" where
  "rotatedDirection c =
     (let moveDirection = getMovementDirection c
      in applyEulerY (cameraRotationY c) \<lparr> vx = vx moveDirection, vy = 0, vz = vz moveDirection \<rparr>)"

definition updateOnFoot_move :: "real \<Rightarrow> Player \<Rightarrow> Player" where
  "updateOnFoot_move deltaTime pl =
     (let c = p_controls pl;
          rd = rotatedDirection c;
          sprinting = (act_sprint (actions c) \<and> stamina (stats pl) > 0);
          speed = (if sprinting then runSpeed pl else walkSpeed pl);
          pl1 = (if sprinting
                 then pl\<lparr> stats := (stats pl)\<lparr> stamina := max 0 (stamina (stats pl) - deltaTime * 25) \<rparr> \<rparr>
                 else pl);
          pl2 = pl1\<lparr> p_velocity := (p_velocity pl1)\<lparr> vx := vx rd * speed, vz := vz rd * speed \<rparr> \<rparr>
      in if act_jump (actions c) \<and> isGrounded pl2
         then pl2\<lparr> p_velocity := (p_velocity pl2)\<lparr> vy := jumpForce pl2 \<rparr>,
                  isGrounded := False, isJumping := True \<rparr>
         else pl2)"

text \<open>
  The second part hands the velocity to the physics body, looks for a vehicle when the
  enter action is held, and copies the body's position back.
\<close>

definition updateOnFoot :: "real \<Rightarrow> (nat \<Rightarrow> body_ref option) \<Rightarrow> player_ref \<Rightarrow> World \<Rightarrow> World" where
  "updateOnFoot deltaTime rays p w =
     (let pl = updateOnFoot_move deltaTime (players w p);
          w1 = set_player p pl w;
          w2 = w1\<lparr> physics := setVelocity (p_body pl) (p_velocity pl) (physics w1) \<rparr>;
          w3 = (if act_enterVehicle (actions (p_controls pl))
                then checkForNearbyVehicles p rays w2 else w2)
      in set_player p
           ((players w3 p)\<lparr> p_position := body_position (bodies (physics w3) (p_body (players w3 p))) \<rparr>)
           w3)"

text \<open>
  \<open>Player.updateInVehicle(deltaTime)\<close>. After \<open>exitVehicle()\<close> has cleared
  \<open>currentVehicle\<close>, reading \<open>this.currentVehicle.driverPosition\<close> throws.
\<close>

definition updateInVehicle :: "real \<Rightarrow> player_ref \<Rightarrow> World \<Rightarrow> outcome" where
  "updateInVehicle deltaTime p w =
     (case currentVehicle (players w p) of
        None \<Rightarrow> Returned w
      | Some vr \<Rightarrow>
          (let vehicleControls = getVehicleControls (p_controls (players w p));
               w1 = set_vehicle vr (applyControls vehicleControls (vehicles w vr)) w;
               w2 = (if act_exitVehicle (actions (p_controls (players w1 p)))
                     then exitVehicle p w1 else w1)
           in case currentVehicle (players w2 p) of
                None \<Rightarrow> Threw w2
              | Some _ \<Rightarrow>
                  Returned (set_player p
                    ((players w2 p)\<lparr> p_position := \<lparr> vx = 0, vy = 0.8, vz = 0.2 \<rparr> \<rparr>) w2)))"

text \<open>
  \<open>Player.update(deltaTime)\<close>: the controls, the movement of the current mode, and the
  stamina regeneration. Camera and animation updates are not modelled.
\<close>

definition Player_update :: "real \<Rightarrow> (nat \<Rightarrow> body_ref option) \<Rightarrow> player_ref \<Rightarrow> World \<Rightarrow> outcome" where
  "Player_update deltaTime rays p w =
     (let w0 = set_player p
                 ((players w p)\<lparr> p_controls := Controls_update deltaTime (p_controls (players w p)) \<rparr>) w;
          r = (if isInVehicle (players w0 p) then updateInVehicle deltaTime p w0
               else Returned (updateOnFoot deltaTime rays p w0))
      in case r of
           Threw w1 \<Rightarrow> Threw w1
         | Returned w1 \<Rightarrow>
             (let pl = players w1 p
              in if \<not> act_sprint (actions (p_controls pl))
                 then Returned (set_player p
                        (pl\<lparr> stats := (stats pl)\<lparr> stamina := min (maxStamina (stats pl))
                                                          (stamina (stats pl) + deltaTime * 15) \<rparr> \<rparr>) w1)
                 else Returned w1))"


section \<open>Rewards on the player (Player.js)\<close>

definition addMoney :: "real \<Rightarrow> Player \<Rightarrow> Player" where
  "addMoney amount pl = pl\<lparr> stats := (stats pl)\<lparr> money := money (stats pl) + amount \<rparr> \<rparr>"

text \<open>
  \<open>Player.addWeapon(weapon)\<close>: when the weapon list has a weapon with the same id, the
  ammunition of the given object is added to that object (which may be the given object
  itself); otherwise the object joins the list, and is equipped when no weapon is.
\<close>

definition addWeapon :: "player_ref \<Rightarrow> item_ref \<Rightarrow> World \<Rightarrow> World" where
  "addWeapon p weapon w =
     (let pl = players w p;
          inv = inventory pl
      in case find (\<lambda>x. item_id (item_store w x) = item_id (item_store w weapon)) (weapons inv) of
           Some existingWeapon \<Rightarrow>
             w\<lparr> item_store := (item_store w)
                   (existingWeapon := (item_store w existingWeapon)
                      \<lparr> item_ammo := item_ammo (item_store w existingWeapon)
                                       + item_ammo (item_store w weapon) \<rparr>) \<rparr>
         | None \<Rightarrow>
             (let inv1 = inv\<lparr> weapons := weapons inv @ [weapon] \<rparr>
              in set_player p
                   (pl\<lparr> inventory := (if currentWeapon inv1 = None
                                        then inv1\<lparr> currentWeapon := Some weapon \<rparr>
                                        else inv1) \<rparr>) w))"

text \<open>
  \<open>Player.collectItem(item)\<close> for an item object; the returned flag is not used by the
  mission system.
\<close>

definition collectItem :: "player_ref \<Rightarrow> item_ref \<Rightarrow> World \<Rightarrow> World" where
  "collectItem p item w =
     (let pl = players w p
      in if length (items (inventory pl)) \<ge> maxItems (inventory pl) then w
         else if item_type (item_store w item) = ''weapon'' then addWeapon p item w
         else if item_type (item_store w item) = ''cash''
         then set_player p (addMoney (item_value (item_store w item)) pl) w
         else set_player p
                (pl\<lparr> inventory := (inventory pl)\<lparr> items := items (inventory pl) @ [item] \<rparr> \<rparr>) w)"

definition updateWantedLevel :: "real \<Rightarrow> Player \<Rightarrow> Player" where
  "updateWantedLevel change pl =
     pl\<lparr> stats := (stats pl)\<lparr> wanted := max 0 (min 5 (wanted (stats pl) + change)) \<rparr> \<rparr>"

section \<open>Missions (Mission.js)\<close>

text \<open>
  Missions are objects shared between the list of all missions, the active-mission
  reference and the completed list, so they live in a store of their own. The callbacks a
  mission carries (\<open>onStart\<close>, \<open>onUpdate\<close>, \<open>onComplete\<close>, an objective's \<open>onComplete\<close>) are
  closures supplied with the mission data; a mission stores the name of each, and the table
  \<open>H\<close> that every method below takes gives the effect of the named closure on the game
  state when it is called for a mission with a frame length.
\<close>

type_synonym mission_ref = nat
type_synonym hook_ref = nat

datatype mission_status = Inactive | Active | Completed | Failed

record Objective =
  obj_id :: string
  obj_description :: string
  obj_type :: string
  obj_completed :: bool
  obj_optional :: bool
  obj_itemId :: "string option"
  obj_location :: "vec3 option"
  obj_distance :: "real option"
  obj_duration :: "real option"
  obj_onComplete :: "hook_ref option"

record Rewards =
  rew_money :: real
  rew_items :: "item_ref list"
  rew_reduceWantedLevel :: real

datatype checkpoint_callback = EndLocationReached | CustomCallback hook_ref

record Checkpoint =
  cp_position :: vec3
  cp_radius :: real
  cp_active :: bool
  cp_triggered :: bool
  cp_triggerCallback :: checkpoint_callback
  cp_mission :: mission_ref

record Mission =
  mission_id :: string
  title :: string
  mission_type :: string
  startLocation :: "vec3 option"
  endLocation :: "vec3 option"
  objectives :: "Objective list"
  timeLimit :: real
  elapsedTime :: real
  rewards :: "Rewards option"
  requireVehicle :: bool
  onStart :: "hook_ref option"
  onComplete :: "hook_ref option"
  onFail :: "hook_ref option"
  onUpdate :: "hook_ref option"
  status :: mission_status
  checkpoints :: "Checkpoint list"

text \<open>
  What the player is shown when a mission ends: \<open>showMissionComplete\<close> names the mission,
  \<open>showMissionFailed\<close> the mission and the reason.
\<close>

datatype notification = MissionCompleteNote mission_ref | MissionFailedNote mission_ref string

text \<open>
  A mission marker in the world: its mission, the world position of its mesh and the
  height it floats around.
\<close>

record MissionMarker =
  marker_mission :: mission_ref
  marker_position :: vec3
  marker_originalY :: real

record MissionSystem =
  ms_player :: player_ref
  missions :: "mission_ref list"
  activeMission :: "mission_ref option"
  completedMissions :: "mission_ref list"
  missionMarkers :: "MissionMarker list"
  notifications :: "notification list"

record Game =
  world :: World
  mission_store :: "mission_ref \<Rightarrow> Mission"
  msys :: MissionSystem

type_synonym hooks = "hook_ref \<Rightarrow> mission_ref \<Rightarrow> real \<Rightarrow> Game \<Rightarrow> Game"

definition upd_mission :: "mission_ref \<Rightarrow> (Mission \<Rightarrow> Mission) \<Rightarrow> Game \<Rightarrow> Game" where
  "upd_mission m f g = g\<lparr> mission_store := (mission_store g)(m := f (mission_store g m)) \<rparr>"

definition upd_player :: "(Player \<Rightarrow> Player) \<Rightarrow> Game \<Rightarrow> Game" where
  "upd_player f g =
     g\<lparr> world := set_player (ms_player (msys g)) (f (players (world g) (ms_player (msys g)))) (world g) \<rparr>"

definition the_player :: "Game \<Rightarrow> Player" where
  "the_player g = players (world g) (ms_player (msys g))"

text \<open>\<open>MissionSystem.createCheckpoint(mission, position, triggerCallback)\<close>.\<close>

definition createCheckpoint :: "mission_ref \<Rightarrow> vec3 \<Rightarrow> checkpoint_callback \<Rightarrow> Game \<Rightarrow> Game" where
  "createCheckpoint m pos cb g =
     upd_mission m (\<lambda>M. M\<lparr> checkpoints := checkpoints M @
        [\<lparr> cp_position = pos, cp_radius = 2, cp_active = True, cp_triggered = False,
           cp_triggerCallback = cb, cp_mission = m \<rparr>] \<rparr>) g"

text \<open>\<open>Mission.initialize()\<close>.\<close>

definition Mission_initialize :: "hooks \<Rightarrow> mission_ref \<Rightarrow> Game \<Rightarrow> Game" where
  "Mission_initialize H m g =
     (let g1 = upd_mission m (\<lambda>M. M\<lparr> elapsedTime := 0,
                  objectives := map (\<lambda>ob. ob\<lparr> obj_completed := False \<rparr>) (objectives M) \<rparr>) g;
          g2 = (case onStart (mission_store g1 m) of
                  Some h \<Rightarrow> H h m 0 g1
                | None \<Rightarrow> g1)
      in case endLocation (mission_store g2 m) of
           Some loc \<Rightarrow> createCheckpoint m loc EndLocationReached g2
         | None \<Rightarrow> g2)"

text \<open>\<open>MissionSystem.startMission(mission)\<close>; the result is the returned flag and the state.\<close>

definition startMission :: "hooks \<Rightarrow> mission_ref \<Rightarrow> Game \<Rightarrow> bool \<times> Game" where
  "startMission H m g =
     (if activeMission (msys g) \<noteq> None then (False, g)
      else
        (let g1 = g\<lparr> msys := (msys g)\<lparr> activeMission := Some m \<rparr> \<rparr>;
             g2 = upd_mission m (\<lambda>M. M\<lparr> status := Active \<rparr>) g1
         in (True, Mission_initialize H m g2)))"

text \<open>
  A method of the mission system that throws leaves the state as it was at the throw.
\<close>

datatype game_outcome = Done Game | Thrown Game

definition game_of :: "game_outcome \<Rightarrow> Game" where
  "game_of r = (case r of Done g \<Rightarrow> g | Thrown g \<Rightarrow> g)"

text \<open>\<open>MissionSystem.awardMissionRewards(mission)\<close>.\<close>

definition awardMissionRewards :: "mission_ref \<Rightarrow> Game \<Rightarrow> Game" where
  "awardMissionRewards m g =
     (case rewards (mission_store g m) of
        None \<Rightarrow> g
      | Some r \<Rightarrow>
          (let g1 = (if rew_money r \<noteq> 0 then upd_player (addMoney (rew_money r)) g else g);
               g2 = fold (\<lambda>item g'. g'\<lparr> world := collectItem (ms_player (msys g')) item (world g') \<rparr>)
                         (rew_items r) g1
           in if rew_reduceWantedLevel r \<noteq> 0
              then upd_player (updateWantedLevel (- rew_reduceWantedLevel r)) g2
              else g2))"

text \<open>
  \<open>MissionSystem.removeMissionMarker(mission)\<close> removes the first marker of the mission.
\<close>

fun removeMissionMarker :: "mission_ref \<Rightarrow> MissionMarker list \<Rightarrow> MissionMarker list" where
  "removeMissionMarker m [] = []"
| "removeMissionMarker m (mk # rest) =
     (if marker_mission mk = m then rest else mk # removeMissionMarker m rest)"

text \<open>\<open>MissionSystem.completeMission()\<close>.\<close>

definition completeMission :: "Game \<Rightarrow> Game" where
  "completeMission g =
     (case activeMission (msys g) of
        None \<Rightarrow> g
      | Some a \<Rightarrow>
          (let g1 = upd_mission a (\<lambda>M. M\<lparr> status := Completed \<rparr>) g;
               g2 = awardMissionRewards a g1
           in g2\<lparr> msys := (msys g2)
                  \<lparr> completedMissions := completedMissions (msys g2) @ [a],
                    notifications := notifications (msys g2) @ [MissionCompleteNote a],
                    missionMarkers := removeMissionMarker a (missionMarkers (msys g2)),
                    activeMission := None \<rparr> \<rparr>))"

text \<open>
  \<open>MissionSystem.failMission(reason)\<close>; an empty reason is shown as the default text. No
  reward is handed out and the mission enters no list.
\<close>

definition failMission :: "string \<Rightarrow> Game \<Rightarrow> Game" where
  "failMission reason g =
     (case activeMission (msys g) of
        None \<Rightarrow> g
      | Some a \<Rightarrow>
          (let g1 = upd_mission a (\<lambda>M. M\<lparr> status := Failed \<rparr>) g
           in g1\<lparr> msys := (msys g1)
                  \<lparr> notifications := notifications (msys g1) @
                      [MissionFailedNote a (if reason = [] then ''You failed the mission'' else reason)],
                    activeMission := None \<rparr> \<rparr>))"

text \<open>\<open>Mission.isComplete()\<close>.\<close>

definition isComplete :: "Mission \<Rightarrow> bool" where
  "isComplete M = list_all (\<lambda>ob. obj_completed ob \<or> obj_optional ob) (objectives M)"

text \<open>
  \<open>Mission.completeObjective(objectiveId)\<close>: the first objective with the id is the one
  found and marked.
\<close>

fun mark_completed :: "string \<Rightarrow> Objective list \<Rightarrow> Objective list" where
  "mark_completed i [] = []"
| "mark_completed i (ob # obs) =
     (if obj_id ob = i then ob\<lparr> obj_completed := True \<rparr> # obs else ob # mark_completed i obs)"

definition completeObjective :: "hooks \<Rightarrow> mission_ref \<Rightarrow> string \<Rightarrow> Game \<Rightarrow> bool \<times> Game" where
  "completeObjective H m objectiveId g =
     (case find (\<lambda>ob. obj_id ob = objectiveId) (objectives (mission_store g m)) of
        None \<Rightarrow> (False, g)
      | Some objective \<Rightarrow>
          if obj_completed objective then (False, g)
          else
            (let g1 = upd_mission m (\<lambda>M. M\<lparr> objectives := mark_completed objectiveId (objectives M) \<rparr>) g;
                 g2 = (case obj_onComplete objective of
                         Some h \<Rightarrow> H h m 0 g1
                       | None \<Rightarrow> g1);
                 g3 = (if isComplete (mission_store g2 m) \<and> status (mission_store g2 m) = Active
                       then (case onComplete (mission_store g2 m) of
                               Some h \<Rightarrow> H h m 0 g2
                             | None \<Rightarrow> completeMission g2)
                       else g2)
             in (True, g3)))"

text \<open>
  The automatic condition of an objective in \<open>Mission.checkMissionConditions\<close>, by objective
  type, for the player and the mission's elapsed time. A missing or falsy \<open>itemId\<close>,
  \<open>distance\<close> or \<open>duration\<close> switches the test off.
\<close>

definition vec3_distance :: "vec3 \<Rightarrow> vec3 \<Rightarrow> real" where
  "vec3_distance a b =
     sqrt ((vx a - vx b) * (vx a - vx b) + (vy a - vy b) * (vy a - vy b) + (vz a - vz b) * (vz a - vz b))"

definition objective_met :: "World \<Rightarrow> player_ref \<Rightarrow> real \<Rightarrow> Objective \<Rightarrow> bool" where
  "objective_met w p elapsed ob =
     (if obj_type ob = ''collect'' then
        (case obj_itemId ob of
           None \<Rightarrow> False
         | Some i \<Rightarrow> i \<noteq> [] \<and>
             (\<exists>it \<in> set (items (inventory (players w p))). item_id (item_store w it) = i))
      else if obj_type ob = ''escape'' then
        (case (obj_location ob, obj_distance ob) of
           (Some loc, Some d) \<Rightarrow> d \<noteq> 0 \<and> vec3_distance (p_position (players w p)) loc \<ge> d
         | _ \<Rightarrow> False)
      else if obj_type ob = ''survive'' then
        (case obj_duration ob of
           None \<Rightarrow> False
         | Some d \<Rightarrow> d \<noteq> 0 \<and> elapsed \<ge> d)
      else False)"

text \<open>
  The \<open>forEach\<close> of \<open>checkMissionConditions\<close>: the objective at each index is read when its
  turn comes.
\<close>

definition checkObjective :: "hooks \<Rightarrow> mission_ref \<Rightarrow> nat \<Rightarrow> Game \<Rightarrow> Game" where
  "checkObjective H m i g =
     (if i < length (objectives (mission_store g m)) then
        (let ob = objectives (mission_store g m) ! i
         in if obj_completed ob then g
            else if objective_met (world g) (ms_player (msys g)) (elapsedTime (mission_store g m)) ob
            then snd (completeObjective H m (obj_id ob) g)
            else g)
      else g)"

fun checkObjectives :: "hooks \<Rightarrow> mission_ref \<Rightarrow> nat list \<Rightarrow> Game \<Rightarrow> Game" where
  "checkObjectives H m [] g = g"
| "checkObjectives H m (i # rest) g = checkObjectives H m rest (checkObjective H m i g)"

definition checkMissionConditions :: "hooks \<Rightarrow> mission_ref \<Rightarrow> Game \<Rightarrow> Game" where
  "checkMissionConditions H m g =
     (let g1 = checkObjectives H m [0..<length (objectives (mission_store g m))] g;
          g2 = (if stats_health (stats (the_player g1)) \<le> 0 then failMission ''You died'' g1 else g1)
      in if requireVehicle (mission_store g2 m) \<and> \<not> isInVehicle (the_player g2)
         then failMission ''You left the vehicle'' g2
         else g2)"

text \<open>\<open>Mission.update(deltaTime)\<close>.\<close>

definition Mission_update :: "hooks \<Rightarrow> real \<Rightarrow> mission_ref \<Rightarrow> Game \<Rightarrow> Game" where
  "Mission_update H deltaTime m g =
     (if status (mission_store g m) \<noteq> Active then g
      else
        (let timed = (timeLimit (mission_store g m) > 0);
             g1 = (if timed
                   then upd_mission m (\<lambda>M. M\<lparr> elapsedTime := elapsedTime M + deltaTime \<rparr>) g
                   else g)
         in if timed \<and> elapsedTime (mission_store g1 m) \<ge> timeLimit (mission_store g1 m)
            then failMission ''Time expired'' g1
            else
              (let g2 = (case onUpdate (mission_store g1 m) of
                           Some h \<Rightarrow> H h m deltaTime g1
                         | None \<Rightarrow> g1)
               in checkMissionConditions H m g2)))"

text \<open>\<open>String.prototype.includes\<close>: the second string occurs in the first.\<close>

fun str_includes :: "string \<Rightarrow> string \<Rightarrow> bool" where
  "str_includes [] t = (t = [])"
| "str_includes (c # cs) t = (take (length t) (c # cs) = t \<or> str_includes cs t)"

text \<open>\<open>MissionSystem.isPlayerInCheckpoint(checkpoint)\<close>.\<close>

definition isPlayerInCheckpoint :: "Game \<Rightarrow> Checkpoint \<Rightarrow> bool" where
  "isPlayerInCheckpoint g cp =
     (if \<not> cp_active cp \<or> cp_triggered cp then False
      else vec3_distance (p_position (the_player g)) (cp_position cp) \<le> cp_radius cp)"

text \<open>
  The callback that \<open>Mission.initialize\<close> attaches to the checkpoint at the end location,
  for the mission \<open>m\<close> that created it.
\<close>

definition endLocationReached :: "hooks \<Rightarrow> mission_ref \<Rightarrow> Game \<Rightarrow> Game" where
  "endLocationReached H m g =
     (let g1 = (case find (\<lambda>ob. obj_type ob = ''destination'' \<or>
                               str_includes (obj_description ob) ''reach'' \<or>
                               str_includes (obj_description ob) ''go to'')
                          (objectives (mission_store g m)) of
                  Some destinationObjective \<Rightarrow>
                    snd (completeObjective H m (obj_id destinationObjective) g)
                | None \<Rightarrow> g)
      in if isComplete (mission_store g1 m) then completeMission g1 else g1)"

text \<open>
  \<open>MissionSystem.triggerCheckpoint(checkpoint)\<close> for the checkpoint at index \<open>i\<close> of
  mission \<open>m\<close>.
\<close>

definition triggerCheckpoint :: "hooks \<Rightarrow> mission_ref \<Rightarrow> nat \<Rightarrow> Game \<Rightarrow> Game" where
  "triggerCheckpoint H m i g =
     (let cp = checkpoints (mission_store g m) ! i
      in if \<not> cp_active cp \<or> cp_triggered cp then g
         else
           (let g1 = upd_mission m
                       (\<lambda>M. M\<lparr> checkpoints := (checkpoints M)[i := cp\<lparr> cp_triggered := True \<rparr>] \<rparr>) g
            in case cp_triggerCallback cp of
                 EndLocationReached \<Rightarrow> endLocationReached H (cp_mission cp) g1
               | CustomCallback h \<Rightarrow> H h (cp_mission cp) 0 g1))"

text \<open>
  The checkpoint pass of \<open>MissionSystem.update\<close>: the \<open>forEach\<close> over the checkpoints of
  the active mission.
\<close>

definition checkCheckpoint :: "hooks \<Rightarrow> mission_ref \<Rightarrow> nat \<Rightarrow> Game \<Rightarrow> Game" where
  "checkCheckpoint H m i g =
     (if i < length (checkpoints (mission_store g m)) then
        (if isPlayerInCheckpoint g (checkpoints (mission_store g m) ! i)
         then triggerCheckpoint H m i g else g)
      else g)"

fun checkCheckpoints :: "hooks \<Rightarrow> mission_ref \<Rightarrow> nat list \<Rightarrow> Game \<Rightarrow> Game" where
  "checkCheckpoints H m [] g = g"
| "checkCheckpoints H m (i # rest) g = checkCheckpoints H m rest (checkCheckpoint H m i g)"

text \<open>
  \<open>MissionSystem.updateMissionMarkers(deltaTime)\<close>: each marker reads the wall clock
  (\<open>Date.now()\<close>, in milliseconds; \<open>now i\<close> is the reading taken for the marker at index
  \<open>i\<close>) and floats around its original height. Light and rotation are not modelled.
\<close>

definition updateMissionMarkers :: "real \<Rightarrow> (nat \<Rightarrow> real) \<Rightarrow> Game \<Rightarrow> Game" where
  "updateMissionMarkers deltaTime now g =
     g\<lparr> msys := (msys g)\<lparr> missionMarkers :=
            map (\<lambda>(i, mk).
                   (let time = now i * 0.001
                    in mk\<lparr> marker_position := (marker_position mk)
                             \<lparr> vy := marker_originalY mk + 0.2 * sin (time * 2) \<rparr> \<rparr>))
                (zip [0..<length (missionMarkers (msys g))] (missionMarkers (msys g))) \<rparr> \<rparr>"

text \<open>
  \<open>MissionSystem.checkMissionTriggers()\<close>: a mission that is not completed is started when
  the player is within 3 of its marker and holds the interact action.
\<close>

definition checkMissionTrigger :: "hooks \<Rightarrow> MissionMarker \<Rightarrow> Game \<Rightarrow> Game" where
  "checkMissionTrigger H mk g =
     (if status (mission_store g (marker_mission mk)) = Completed then g
      else if vec3_distance (p_position (the_player g)) (marker_position mk) < 3
              \<and> act_interact (actions (p_controls (the_player g)))
      then snd (startMission H (marker_mission mk) g)
      else g)"

fun checkMissionTriggerList :: "hooks \<Rightarrow> MissionMarker list \<Rightarrow> Game \<Rightarrow> Game" where
  "checkMissionTriggerList H [] g = g"
| "checkMissionTriggerList H (mk # rest) g =
     checkMissionTriggerList H rest (checkMissionTrigger H mk g)"

definition checkMissionTriggers :: "hooks \<Rightarrow> Game \<Rightarrow> Game" where
  "checkMissionTriggers H g = checkMissionTriggerList H (missionMarkers (msys g)) g"

text \<open>
  \<open>MissionSystem.update(deltaTime)\<close>, one frame of the mission system. After the active
  mission's own update the method reads \<open>this.activeMission.checkpoints\<close>; when the update
  has ended the mission, the reference is \<open>null\<close> and the read throws, so the rest of the
  frame is skipped.
\<close>

definition MissionSystem_update :: "hooks \<Rightarrow> real \<Rightarrow> (nat \<Rightarrow> real) \<Rightarrow> Game \<Rightarrow> game_outcome" where
  "MissionSystem_update H deltaTime now g =
     (case activeMission (msys g) of
        None \<Rightarrow> Done (checkMissionTriggers H (updateMissionMarkers deltaTime now g))
      | Some a \<Rightarrow>
          (let g1 = Mission_update H deltaTime a g
           in case activeMission (msys g1) of
                None \<Rightarrow> Thrown g1
              | Some b \<Rightarrow>
                  (let g2 = checkCheckpoints H b
                              [0..<length (checkpoints (mission_store g1 b))] g1
                   in Done (checkMissionTriggers H (updateMissionMarkers deltaTime now g2)))))"

text \<open>
  A run of calls of \<open>MissionSystem.update\<close>. Each call comes with what the rest of the game
  (the player, the vehicles, the physics step, the input handlers) has done to the world
  since the previous call, with its frame length, and with the wall clock. A call that
  throws leaves the state it had reached, and the run goes on from there.
\<close>

record Frame =
  fr_before :: "World \<Rightarrow> World"
  fr_deltaTime :: real
  fr_now :: "nat \<Rightarrow> real"

definition frame_state :: "Frame \<Rightarrow> Game \<Rightarrow> Game" where
  "frame_state fr g = g\<lparr> world := fr_before fr (world g) \<rparr>"

definition MissionSystem_frame :: "hooks \<Rightarrow> Frame \<Rightarrow> Game \<Rightarrow> Game" where
  "MissionSystem_frame H fr g =
     game_of (MissionSystem_update H (fr_deltaTime fr) (fr_now fr) (frame_state fr g))"

definition MissionSystem_updates :: "hooks \<Rightarrow> Frame list \<Rightarrow> Game \<Rightarrow> Game" where
  "MissionSystem_updates H frames g = fold (MissionSystem_frame H) frames g"

text \<open>
  A mission \<open>m\<close> is left alone in a state when nothing but its clock can end it: it has no
  \<open>onUpdate\<close> callback, the player is alive and is in a vehicle if the mission asks for one,
  no objective's automatic condition holds up to the time limit, the player stands in none
  of its checkpoints, and no marker can start a mission (there is no marker, or the interact
  action is not held). It is left alone over a run when it is so at every call of the run.
\<close>

definition left_alone :: "mission_ref \<Rightarrow> Game \<Rightarrow> bool" where
  "left_alone m g =
     (onUpdate (mission_store g m) = None \<and>
      0 < stats_health (stats (the_player g)) \<and>
      (requireVehicle (mission_store g m) \<longrightarrow> isInVehicle (the_player g)) \<and>
      (\<forall>ob \<in> set (objectives (mission_store g m)).
          \<not> objective_met (world g) (ms_player (msys g)) (timeLimit (mission_store g m)) ob) \<and>
      (\<forall>cp \<in> set (checkpoints (mission_store g m)). \<not> isPlayerInCheckpoint g cp) \<and>
      (missionMarkers (msys g) = [] \<or> \<not> act_interact (actions (p_controls (the_player g)))))"

fun left_alone_run :: "hooks \<Rightarrow> mission_ref \<Rightarrow> Frame list \<Rightarrow> Game \<Rightarrow> bool" where
  "left_alone_run H m [] g = True"
| "left_alone_run H m (fr # frames) g =
     (left_alone m (frame_state fr g) \<and> left_alone_run H m frames (MissionSystem_frame H fr g))"

text \<open>A run of \<open>startMission\<close> calls.\<close>

definition startMissions :: "hooks \<Rightarrow> mission_ref list \<Rightarrow> Game \<Rightarrow> Game" where
  "startMissions H ms g = fold (\<lambda>m g'. snd (startMission H m g')) ms g"

section \<open>Constructors and a small world\<close>

text \<open>The state the constructors of \<open>Controls\<close> and \<open>Player\<close> set up.\<close>

definition Controls_new :: Controls where
  "Controls_new =
     \<lparr> keys = (\<lambda>_. False), mouseButtons = (\<lambda>_. False), mouseDeltaX = 0,
       controlMode = MODE_CHARACTER, viewMode = VIEW_THIRD_PERSON, isPointerLocked = False,
       cameraRotationY = 0, previousF5State = False,
       actions = \<lparr> act_moveForward = False, act_moveBackward = False, act_moveLeft = False,
                   act_moveRight = False, act_jump = False, act_sprint = False,
                   act_crouch = False, act_enterVehicle = False, act_exitVehicle = False,
                   act_handbrake = False, act_shoot = False, act_reload = False,
                   act_switchWeapon = False, act_interact = False, act_aim = False,
                   act_enter = False, act_horn = False, act_headlights = False,
                   act_radio = False \<rparr> \<rparr>"

definition Player_new :: "body_ref \<Rightarrow> Player" where
  "Player_new b =
     \<lparr> p_position = \<lparr> vx = 0, vy = 2, vz = 0 \<rparr>,
       p_velocity = \<lparr> vx = 0, vy = 0, vz = 0 \<rparr>,
       isGrounded = False, isJumping = False, isInVehicle = False, currentVehicle = None,
       stats = \<lparr> stats_health = 100, maxHealth = 100, stamina = 100, maxStamina = 100,
                 money = 1000, wanted = 0 \<rparr>,
       inventory = \<lparr> weapons = [], items = [], currentWeapon = None, maxItems = 10 \<rparr>,
       walkSpeed = 5, runSpeed = 9, jumpForce = 7,
       p_body = b, group_visible = True, p_controls = Controls_new \<rparr>"

text \<open>
  A world for the examples: player \<open>i\<close> owns body \<open>100 + i\<close>, every item reference holds
  a pistol like the one the first sample mission rewards, and vehicle 0 is a default sedan
  built by the constructor on chassis body 20 with group mesh 10.
\<close>

definition no_options :: VehicleOptionsInput where
  "no_options = \<lparr> in_type = None, in_color = None, in_maxSpeed = None,
                   in_acceleration = None, in_handling = None, in_braking = None,
                   in_dimensions = None \<rparr>"

definition start_world :: World where
  "start_world =
     \<lparr> players = (\<lambda>i. Player_new (100 + i)),
       vehicles = (\<lambda>_. \<lparr> options = \<lparr> vehicle_type = [], maxSpeed = 0, acceleration = 0,
                                       handling = 0, braking = 0,
                                       dimensions = default_dimensions \<rparr>,
                          state = \<lparr> health = 0, fuel = 0, speed = 0, engineOn = False,
                                     handbrakeActive = False, headlightsOn = False,
                                     hornActive = False, damaged = False, driver = None \<rparr>,
                          controls = \<lparr> throttle = 0, brake = 0, steering = 0, handbrake = False \<rparr>,
                          vehicle = \<lparr> maxForce = 0, maxBrake = 0, steeringClamp = 0, wheelInfos = [] \<rparr>,
                          chassisBody = None, group = 0,
                          body_material = \<lparr> color = 0, roughness = 0, metalness = 0 \<rparr>,
                          brakelights = [],
                          exitPoints = createExitPoints default_dimensions,
                          matrixWorld = (\<lambda>v. v) \<rparr>),
       physics = \<lparr> bodies = (\<lambda>_. \<lparr> velocity = \<lparr> vx = 0, vy = 0, vz = 0 \<rparr>,
                                   body_position = \<lparr> vx = 0, vy = 0, vz = 0 \<rparr>,
                                   sleeping = False, userData = None \<rparr>),
                   objects = [] \<rparr>,
       item_store = (\<lambda>_. \<lparr> item_id = ''item_1'', item_name = ''Pistol'',
                            item_type = ''weapon'', item_value = 0, item_ammo = 30 \<rparr>) \<rparr>"

definition sedan_world :: World where
  "sedan_world = Vehicle_new 0 no_options ''abc123xyz'' 10 20 start_world"

text \<open>Inputs and states of the examples.\<close>

definition steer_right :: VehicleControls where
  "steer_right = \<lparr> throttle = 0, brake = 0, steering = 1, handbrake = False \<rparr>"

definition full_throttle :: VehicleControls where
  "full_throttle = \<lparr> throttle = 1, brake = 0, steering = 0, handbrake = False \<rparr>"

definition dry_sedan :: Vehicle where
  "dry_sedan = Vehicle_update 10000 (bodies (physics sedan_world))
                 (setDriver (PlayerDriver 1) (vehicles sedan_world 0))"

definition occupied_world :: World where
  "occupied_world = enterVehicle 1 (Some 0) sedan_world"

text \<open>
  A run of \<open>Physics.addObject\<close> calls, and the property that no linked body passes the
  \<open>userData.type\<close> test for any tag.
\<close>

fun addObjects :: "(mesh_ref \<times> body_ref) list \<Rightarrow> Physics \<Rightarrow> Physics" where
  "addObjects [] ph = ph"
| "addObjects ((m, b) # rest) ph = addObjects rest (addObject m b ph)"

definition linked_untagged :: "Physics \<Rightarrow> bool" where
  "linked_untagged ph =
     (\<forall>(m, b) \<in> set (objects ph). \<forall>t. \<not> userData_type_is t (bodies ph b))"

text \<open>Players of the examples: which keys' actions are held, and how much stamina is left.\<close>

definition no_rays :: "nat \<Rightarrow> body_ref option" where
  "no_rays = (\<lambda>_. None)"

definition with_actions :: "player_ref \<Rightarrow> Actions \<Rightarrow> World \<Rightarrow> World" where
  "with_actions p a w =
     set_player p ((players w p)\<lparr> p_controls := (p_controls (players w p))\<lparr> actions := a \<rparr> \<rparr>) w"

definition with_stamina :: "player_ref \<Rightarrow> real \<Rightarrow> World \<Rightarrow> World" where
  "with_stamina p s w =
     set_player p ((players w p)\<lparr> stats := (stats (players w p))\<lparr> stamina := s \<rparr> \<rparr>) w"

definition sprint_forward :: Actions where
  "sprint_forward = (actions Controls_new)\<lparr> act_moveForward := True, act_sprint := True \<rparr>"

definition sprint_world :: World where
  "sprint_world = with_actions 0 sprint_forward start_world"

definition tired_sprint_world :: World where
  "tired_sprint_world = with_stamina 0 0 sprint_world"







text \<open>
  \<open>MissionSystem.createMissionMarker(mission, position)\<close> builds the base mesh and then
  calls \<open>new THREE.FontLoader()\<close>. The scene library the project's package file asks for
  (three 0.175.0) has no \<open>FontLoader\<close>, so the call throws there, before the marker is
  stored.
\<close>

definition createMissionMarker :: "mission_ref \<Rightarrow> vec3 \<Rightarrow> Game \<Rightarrow> game_outcome" where
  "createMissionMarker m position g = Thrown g"

text \<open>
  \<open>MissionSystem.createMission(missionData)\<close>, with the mission object the \<open>Mission\<close>
  constructor builds from the data stored at the reference \<open>m\<close>: the mission joins the list
  of all missions, and a marker is asked for when it has a start location.
\<close>

definition createMission :: "mission_ref \<Rightarrow> Mission \<Rightarrow> Game \<Rightarrow> game_outcome" where
  "createMission m M g =
     (let g1 = g\<lparr> mission_store := (mission_store g)(m := M),
                  msys := (msys g)\<lparr> missions := missions (msys g) @ [m] \<rparr> \<rparr>
      in case startLocation M of
           Some position \<Rightarrow> createMissionMarker m position g1
         | None \<Rightarrow> Done g1)"

text \<open>
  The first sample mission of \<open>createSampleMissions\<close> (``Special Delivery'', three minutes),
  as its constructor leaves it, and the callbacks of the sample missions at the moment they
  are called: the delivery mission's \<open>onStart\<close> (callback 0) only sets a timer, the chase
  mission's (callback 2) raises the wanted level by 2.
\<close>

definition plain_objective :: "string \<Rightarrow> string \<Rightarrow> string \<Rightarrow> Objective" where
  "plain_objective i d t =
     \<lparr> obj_id = i, obj_description = d, obj_type = t, obj_completed = False,
       obj_optional = False, obj_itemId = None, obj_location = None, obj_distance = None,
       obj_duration = None, obj_onComplete = None \<rparr>"

definition deliveryMission :: Mission where
  "deliveryMission =
     \<lparr> mission_id = ''mission_delivery_1'', title = ''Special Delivery'', mission_type = ''side'',
       startLocation = Some \<lparr> vx = 30, vy = 1, vz = 30 \<rparr>,
       endLocation = Some \<lparr> vx = - 30, vy = 1, vz = - 30 \<rparr>,
       objectives = [plain_objective ''obj_pickup'' ''Pick up the package'' ''pickup'',
                     plain_objective ''obj_deliver'' ''Deliver the package to the destination''
                       ''destination''],
       timeLimit = 180, elapsedTime = 0,
       rewards = Some \<lparr> rew_money = 500,
                        rew_items = [0],
                        rew_reduceWantedLevel = 0 \<rparr>,
       requireVehicle = False,
       onStart = Some 0, onComplete = None, onFail = None, onUpdate = None,
       status = Inactive, checkpoints = [] \<rparr>"

definition sample_hooks :: hooks where
  "sample_hooks h m dt g = (if h = 2 then upd_player (updateWantedLevel 2) g else g)"

definition start_game :: Game where
  "start_game =
     \<lparr> world = start_world,
       mission_store = (\<lambda>_. deliveryMission),
       msys = \<lparr> ms_player = 0, missions = [], activeMission = None, completedMissions = [],
                missionMarkers = [], notifications = [] \<rparr> \<rparr>"

definition delivery_game :: Game where
  "delivery_game = game_of (createMission 0 deliveryMission start_game)"

definition started_game :: Game where
  "started_game = snd (startMission sample_hooks 0 delivery_game)"

text \<open>A call before which the rest of the game has left the world as it was.\<close>

definition still_frame :: "real \<Rightarrow> Frame" where
  "still_frame dt = \<lparr> fr_before = (\<lambda>w. w), fr_deltaTime = dt, fr_now = (\<lambda>_. 0) \<rparr>"

definition failed_game :: Game where
  "failed_game = game_of (MissionSystem_update sample_hooks 181 (\<lambda>_. 0) started_game)"

definition completed_game :: Game where
  "completed_game = completeMission started_game"

text \<open>
  The state on which \<open>startMission\<close> calls the mission's \<open>onStart\<close> callback, and the
  condition that the callback (if the mission has one) hands back a state in which the
  mission is still the active one.
\<close>

definition state_at_onStart :: "mission_ref \<Rightarrow> Game \<Rightarrow> Game" where
  "state_at_onStart m g =
     upd_mission m (\<lambda>M. M\<lparr> elapsedTime := 0,
        objectives := map (\<lambda>ob. ob\<lparr> obj_completed := False \<rparr>) (objectives M) \<rparr>)
       (upd_mission m (\<lambda>M. M\<lparr> status := Active \<rparr>)
          (g\<lparr> msys := (msys g)\<lparr> activeMission := Some m \<rparr> \<rparr>))"

definition onStart_keeps_active :: "hooks \<Rightarrow> mission_ref \<Rightarrow> Game \<Rightarrow> bool" where
  "onStart_keeps_active H m g =
     (case onStart (mission_store g m) of
        None \<Rightarrow> True
      | Some h \<Rightarrow>
          activeMission (msys (H h m 0 (state_at_onStart m g))) = Some m \<and>
          status (mission_store (H h m 0 (state_at_onStart m g)) m) = Active)"

section \<open>Properties\<close>

subsection \<open>Auxiliary facts\<close>

lemma upt_0_2: "[0..<2] = [0, 1]"
  by (simp add: upt_rec)

lemma upt_2_4: "[2..<4] = [2, 3]"
  by (simp add: upt_rec)

lemma upt_0_4: "[0..<4] = [0, 1, 2, 3]"
  by (simp add: upt_rec)

lemma state_startEngine [simp]:
  "state (startEngine v) = (state v)\<lparr> engineOn := True \<rparr>"
  by (simp add: startEngine_def)

lemma state_stopEngine [simp]:
  "state (stopEngine v) = (state v)\<lparr> engineOn := False \<rparr>"
  by (simp add: stopEngine_def)

lemma state_applyControls:
  "state (applyControls c v) =
     (state v)\<lparr> engineOn := (engineOn (state v) \<or> throttle c > 0 \<or> brake c > 0),
                handbrakeActive := handbrake c \<rparr>"
  by (simp add: applyControls_def Let_def updateBrakeLights_def)

lemma state_setDriver [simp]:
  "state (setDriver d v) = (state v)\<lparr> driver := Some d, engineOn := True \<rparr>"
  by (simp add: setDriver_def)

lemma state_removeDriver [simp]:
  "state (removeDriver v) = (state v)\<lparr> driver := None, engineOn := False \<rparr>"
  by (simp add: removeDriver_def)

lemma players_set_player [simp]:
  "players (set_player p pl w) = (players w)(p := pl)"
  by (simp add: set_player_def)

lemma vehicles_set_player [simp]:
  "vehicles (set_player p pl w) = vehicles w"
  by (simp add: set_player_def)

lemma physics_set_player [simp]:
  "physics (set_player p pl w) = physics w"
  by (simp add: set_player_def)

lemma players_set_vehicle [simp]:
  "players (set_vehicle i v w) = players w"
  by (simp add: set_vehicle_def)

lemma vehicles_set_vehicle [simp]:
  "vehicles (set_vehicle i v w) = (vehicles w)(i := v)"
  by (simp add: set_vehicle_def)

lemma physics_set_vehicle [simp]:
  "physics (set_vehicle i v w) = physics w"
  by (simp add: set_vehicle_def)

lemma players_set_body [simp]:
  "players (set_body b bd w) = players w"
  by (simp add: set_body_def)

lemma vehicles_set_body [simp]:
  "vehicles (set_body b bd w) = vehicles w"
  by (simp add: set_body_def)

lemma bodies_set_body [simp]:
  "bodies (physics (set_body b bd w)) = (bodies (physics w))(b := bd)"
  by (simp add: set_body_def)

lemma objects_set_body [simp]:
  "objects (physics (set_body b bd w)) = objects (physics w)"
  by (simp add: set_body_def)

lemma enterVehicle_entered:
  "\<not> isInVehicle (players w p) \<Longrightarrow>
     driver (state (vehicles (enterVehicle p (Some vr) w) vr)) = Some (PlayerDriver p) \<and>
     isInVehicle (players (enterVehicle p (Some vr) w) p) \<and>
     currentVehicle (players (enterVehicle p (Some vr) w) p) = Some vr"
  by (simp add: enterVehicle_def Let_def)

lemma exitVehicle_bound:
  "isInVehicle (players w p) \<Longrightarrow> currentVehicle (players w p) = Some vr \<Longrightarrow>
     exitVehicle p w =
       set_player p
         ((players w p)\<lparr> p_position := getExitPosition (vehicles w vr), group_visible := True,
                         p_controls := setControlMode MODE_CHARACTER (p_controls (players w p)),
                         currentVehicle := None, isInVehicle := False \<rparr>)
         (set_vehicle vr (removeDriver (vehicles w vr))
            (set_body (p_body (players w p))
               (Body_wakeUp ((bodies (physics w) (p_body (players w p)))
                  \<lparr> body_position := getExitPosition (vehicles w vr) \<rparr>)) w))"
  by (simp add: exitVehicle_def Let_def)

lemma takeDamage_alive:
  "0 < health (state (vehicles w vr)) - amount \<Longrightarrow>
     takeDamage vr amount w =
       set_vehicle vr
         (let v1 = (vehicles w vr)\<lparr> state := (state (vehicles w vr))\<lparr> health := health (state (vehicles w vr)) - amount \<rparr> \<rparr>
          in if health (state v1) < 50 \<and> \<not> damaged (state v1)
             then applyDamageVisuals (v1\<lparr> state := (state v1)\<lparr> damaged := True \<rparr> \<rparr>) else v1) w"
  by (simp add: takeDamage_def Let_def applyDamageVisuals_def max_def)

lemma sedan_vehicle:
  "vehicles sedan_world 0 =
     \<lparr> options = \<lparr> vehicle_type = ''sedan'', maxSpeed = 150, acceleration = 10,
                     handling = 0.7, braking = 0.8,
                     dimensions = \<lparr> dim_length = 4.5, dim_width = 1.8, dim_height = 1.4 \<rparr> \<rparr>,
       state = \<lparr> health = 100, fuel = 100, speed = 0, engineOn = False,
                  handbrakeActive = False, headlightsOn = False, hornActive = False,
                  damaged = False, driver = None \<rparr>,
       controls = \<lparr> throttle = 0, brake = 0, steering = 0, handbrake = False \<rparr>,
       vehicle = \<lparr> maxForce = 8000, maxBrake = 40, steeringClamp = 0.5,
                    wheelInfos = replicate 4 \<lparr> wheel_steering = 0, wheel_engineForce = 0, wheel_brake = 0 \<rparr> \<rparr>,
       chassisBody = Some 20, group = 10,
       body_material = \<lparr> color = 0x333333, roughness = 0.3, metalness = 0.7 \<rparr>,
       brakelights = [0, 0],
       exitPoints = (\<lparr> vx = - 2.8, vy = 0, vz = 0.75 \<rparr>, \<lparr> vx = 2.8, vy = 0, vz = 0.75 \<rparr>,
                     \<lparr> vx = - 2.8, vy = 0, vz = - 0.75 \<rparr>, \<lparr> vx = 2.8, vy = 0, vz = - 0.75 \<rparr>),
       matrixWorld = (\<lambda>v. v) \<rparr>"
  by (simp add: sedan_world_def Vehicle_new_def createVehiclePhysics_def Let_def no_options_def
      num_or_def nat_or_def str_or_def steeringClamp_of_type_def start_world_def
      default_dimensions_def createExitPoints_def)

lemma sedan_players:
  "players sedan_world = (\<lambda>i. Player_new (100 + i))"
  by (simp add: sedan_world_def Vehicle_new_def createVehiclePhysics_def Let_def start_world_def)

lemma wheelInfos_applyControls:
  "wheelInfos (vehicle (applyControls c v)) =
     (let sv = steering c * steeringClamp (vehicle v) * max 0.5 (1 - speed (state v) / maxSpeed (options v));
          rv1 = fold (\<lambda>i. setSteeringValue sv i) [0..<2] (vehicle v);
          rv2 = fold (\<lambda>i. applyEngineForce (throttle c * maxForce (vehicle v)) i) [2..<4] rv1;
          rv3 = fold (\<lambda>i. setBrake (brake c * maxBrake (vehicle v)) i) [0..<4] rv2
      in if handbrake c then wheelInfos (fold (\<lambda>i. setBrake (maxBrake (vehicle v) * 2) i) [2..<4] rv3)
         else wheelInfos rv3)"
  by (simp add: applyControls_def Let_def startEngine_def updateBrakeLights_def
      setSteeringValue_def applyEngineForce_def setBrake_def upt_0_2 upt_2_4 upt_0_4)

lemma front_wheels_applyControls:
  assumes "length (wheelInfos (vehicle v)) = 4"
  shows "wheel_steering (wheelInfos (vehicle (applyControls c v)) ! 0)
           = steering c * steeringClamp (vehicle v) * max 0.5 (1 - speed (state v) / maxSpeed (options v))"
    and "wheel_steering (wheelInfos (vehicle (applyControls c v)) ! 1)
           = steering c * steeringClamp (vehicle v) * max 0.5 (1 - speed (state v) / maxSpeed (options v))"
  using assms
  by (simp_all add: wheelInfos_applyControls Let_def
      setSteeringValue_def applyEngineForce_def setBrake_def upt_0_2 upt_2_4 upt_0_4 nth_list_update)

lemma takeDamage_fatal:
  "health (state (vehicles w vr)) - amount \<le> 0 \<Longrightarrow>
     takeDamage vr amount w =
       destroy vr (set_vehicle vr
         (let v1 = (vehicles w vr)\<lparr> state := (state (vehicles w vr))\<lparr> health := 0 \<rparr> \<rparr>
          in if \<not> damaged (state v1)
             then applyDamageVisuals (v1\<lparr> state := (state v1)\<lparr> damaged := True \<rparr> \<rparr>) else v1) w)"
  by (simp add: takeDamage_def Let_def applyDamageVisuals_def max_def)

lemma destroy_vehicle_material:
  "body_material (vehicles (destroy vr w) vr) = \<lparr> color = 0x111111, roughness = 1, metalness = 0 \<rparr>"
  by (simp add: destroy_def Let_def)

lemma destroy_health:
  "health (state (vehicles (destroy vr w) vr)) = health (state (vehicles w vr))"
  by (simp add: destroy_def Let_def exitVehicle_def split: option.splits driver_ref.splits)

lemma destroy_ejects:
  assumes "driver (state (vehicles w vr)) = Some (PlayerDriver p)"
      and "isInVehicle (players w p)" and "currentVehicle (players w p) = Some vr"
  shows "driver (state (vehicles (destroy vr w) vr)) = None \<and>
         \<not> engineOn (state (vehicles (destroy vr w) vr)) \<and>
         \<not> isInVehicle (players (destroy vr w) p) \<and>
         currentVehicle (players (destroy vr w) p) = None"
  using assms by (simp add: destroy_def Let_def exitVehicle_bound)

lemma repair_in_result:
  "repair_in vr amount w =
     (min 100 (health (state (vehicles w vr)) + amount) - health (state (vehicles w vr)),
      set_vehicle vr (snd (repair amount (vehicles w vr))) w)"
  by (simp add: repair_in_def repair_def Let_def resetDamageVisuals_def)

lemma state_repair:
  "state (snd (repair amount v)) =
     (state v)\<lparr> health := min 100 (health (state v) + amount),
                damaged := (damaged (state v) \<and> min 100 (health (state v) + amount) < 50) \<rparr>"
  by (auto simp: repair_def Let_def resetDamageVisuals_def min_def)

lemma repair_frame:
  "players (snd (repair_in vr amount w)) = players w"
  by (simp add: repair_in_result)

lemma state_Vehicle_update_on:
  "chassisBody v = Some cb \<Longrightarrow> engineOn (state v) \<Longrightarrow>
     state (Vehicle_update dt bs v) =
       (state v)\<lparr> speed := vec3_length (velocity (bs cb)) * 3.6,
                  fuel := max 0 (fuel (state v) - (0.01 * dt + throttle (controls v) * 0.05 * dt)),
                  engineOn := (0 < fuel (state v) - (0.01 * dt + throttle (controls v) * 0.05 * dt)) \<rparr>"
  by (auto simp: Vehicle_update_def Let_def max_def)

lemma state_Vehicle_update_off:
  "\<not> engineOn (state v) \<Longrightarrow>
     engineOn (state (Vehicle_update dt bs v)) = False \<and>
     fuel (state (Vehicle_update dt bs v)) = fuel (state v)"
  by (simp add: Vehicle_update_def Let_def split: option.splits)

lemma dry_sedan_state:
  "state dry_sedan =
     \<lparr> health = 100, fuel = 0, speed = 0, engineOn = False,
       handbrakeActive = False, headlightsOn = False, hornActive = False,
       damaged = False, driver = Some (PlayerDriver 1) \<rparr>"
  by (simp add: dry_sedan_def state_Vehicle_update_on [of _ 20] setDriver_def startEngine_def
      sedan_vehicle vec3_length_def sedan_world_def Vehicle_new_def createVehiclePhysics_def Let_def
      start_world_def addObject_def)

lemma dry_sedan_chassis: "chassisBody dry_sedan = Some 20"
  by (simp add: dry_sedan_def Vehicle_update_def setDriver_def startEngine_def stopEngine_def
      sedan_vehicle Let_def)

lemma userData_addObject:
  "userData (bodies (addObject m b ph) b') =
     (if b' = b then Some [(''mesh'', UdMesh m)] else userData (bodies ph b'))"
  by (simp add: addObject_def)

lemma objects_addObject: "objects (addObject m b ph) = objects ph @ [(m, b)]"
  by (simp add: addObject_def)

lemma linked_untagged_addObject:
  "linked_untagged ph \<Longrightarrow> linked_untagged (addObject m b ph)"
  by (auto simp: linked_untagged_def userData_addObject objects_addObject userData_type_is_def)

lemma linked_untagged_addObjects:
  "linked_untagged ph \<Longrightarrow> linked_untagged (addObjects regs ph)"
  by (induction regs arbitrary: ph) (auto simp: linked_untagged_addObject)

lemma chassis_after_createVehiclePhysics:
  "userData (bodies (physics (createVehiclePhysics vr ident cb w)) cb)
     = Some [(''mesh'', UdMesh (group (vehicles w vr)))]"
  by (simp add: createVehiclePhysics_def Let_def userData_addObject)


lemma actions_Controls_update [simp]: "actions (Controls_update dt c) = actions c"
  by (simp add: Controls_update_def Let_def toggleViewMode_def)

lemma cameraRotationY_Controls_update [simp]:
  "cameraRotationY (Controls_update dt c) = cameraRotationY c"
  by (simp add: Controls_update_def Let_def toggleViewMode_def)

lemma rotatedDirection_Controls_update [simp]:
  "rotatedDirection (Controls_update dt c) = rotatedDirection c"
  by (simp add: rotatedDirection_def getMovementDirection_def)

lemma stats_enterVehicle [simp]:
  "stats (players (enterVehicle p vo w) q) = stats (players w q)"
  by (simp add: enterVehicle_def Let_def split: option.splits)

lemma p_body_enterVehicle [simp]:
  "p_body (players (enterVehicle p vo w) q) = p_body (players w q)"
  by (simp add: enterVehicle_def Let_def split: option.splits)

lemma act_sprint_setControlMode_vehicle [simp]:
  "act_sprint (actions (setControlMode MODE_VEHICLE c)) = False"
  by (simp add: setControlMode_def updateActionsFromKeys_def all_actions_false_def Let_def)

lemma p_velocity_enterVehicle [simp]:
  "p_velocity (players (enterVehicle p vo w) q) = p_velocity (players w q)"
  by (simp add: enterVehicle_def Let_def split: option.splits)

lemma enterVehicle_no_sprint:
  "\<not> isInVehicle (players w p) \<Longrightarrow>
     isInVehicle (players (enterVehicle p (Some vr) w) p) \<and>
     \<not> act_sprint (actions (p_controls (players (enterVehicle p (Some vr) w) p))) \<and>
     velocity (bodies (physics (enterVehicle p (Some vr) w)) (p_body (players w p)))
       = \<lparr> vx = 0, vy = 0, vz = 0 \<rparr>"
  by (simp add: enterVehicle_def Let_def Body_sleep_def)

lemma p_velocity_checkRays [simp]:
  "p_velocity (players (checkRays p rs w) q) = p_velocity (players w q)"
  by (induction rs) (simp_all split: option.splits)

lemma checkRays_cases:
  "checkRays p rs w = w \<or> (\<exists>vr. checkRays p rs w = enterVehicle p (Some vr) w)"
proof (induction rs)
  case Nil
  then show ?case by simp
next
  case (Cons r rs)
  show ?case
  proof (cases r)
    case None
    then show ?thesis using Cons.IH by simp
  next
    case (Some b)
    show ?thesis
    proof (cases "userData_type_is ''vehicle'' (bodies (physics w) b)")
      case False
      then show ?thesis using Some Cons.IH by simp
    next
      case True
      show ?thesis
      proof (cases "userData_vehicle (bodies (physics w) b)")
        case None
        then show ?thesis using Some True by (simp add: enterVehicle_def)
      next
        case (Some vr)
        then show ?thesis using \<open>r = Some b\<close> True by auto
      qed
    qed
  qed
qed

lemma p_velocity_checkForNearbyVehicles [simp]:
  "p_velocity (players (checkForNearbyVehicles p rays w) q) = p_velocity (players w q)"
  unfolding checkForNearbyVehicles_def by (rule p_velocity_checkRays)

lemma checkForNearbyVehicles_cases:
  "checkForNearbyVehicles p rays w = w \<or>
   (\<exists>vr. checkForNearbyVehicles p rays w = enterVehicle p (Some vr) w)"
  unfolding checkForNearbyVehicles_def by (rule checkRays_cases)

lemma checkForNearbyVehicles_onFoot:
  assumes "\<not> isInVehicle (players w p)"
  shows "checkForNearbyVehicles p rays w = w \<or>
         isInVehicle (players (checkForNearbyVehicles p rays w) p) \<and>
         \<not> act_sprint (actions (p_controls (players (checkForNearbyVehicles p rays w) p))) \<and>
         velocity (bodies (physics (checkForNearbyVehicles p rays w)) (p_body (players w p)))
           = \<lparr> vx = 0, vy = 0, vz = 0 \<rparr>"
  using checkForNearbyVehicles_cases [of p rays w] enterVehicle_no_sprint [OF assms]
  by auto

lemma stats_checkRays [simp]:
  "stats (players (checkRays p rs w) q) = stats (players w q)"
  by (induction rs) (simp_all split: option.splits)

lemma p_body_checkRays [simp]:
  "p_body (players (checkRays p rs w) q) = p_body (players w q)"
  by (induction rs) (simp_all split: option.splits)

lemma stats_checkForNearbyVehicles [simp]:
  "stats (players (checkForNearbyVehicles p rays w) q) = stats (players w q)"
  unfolding checkForNearbyVehicles_def by (rule stats_checkRays)

lemma p_body_checkForNearbyVehicles [simp]:
  "p_body (players (checkForNearbyVehicles p rays w) q) = p_body (players w q)"
  unfolding checkForNearbyVehicles_def by (rule p_body_checkRays)

lemma stats_exitVehicle [simp]:
  "stats (players (exitVehicle p w) q) = stats (players w q)"
  by (simp add: exitVehicle_def Let_def split: option.splits)


lemma stats_updateOnFoot_move:
  "stats (updateOnFoot_move dt pl) =
     (stats pl)\<lparr> stamina := (if act_sprint (actions (p_controls pl)) \<and> 0 < stamina (stats pl)
                              then max 0 (stamina (stats pl) - dt * 25)
                              else stamina (stats pl)) \<rparr>"
  by (simp add: updateOnFoot_move_def Let_def)

lemma p_velocity_updateOnFoot_move:
  "p_velocity (updateOnFoot_move dt pl) =
     (p_velocity pl)
       \<lparr> vx := vx (rotatedDirection (p_controls pl)) *
                 (if act_sprint (actions (p_controls pl)) \<and> 0 < stamina (stats pl)
                  then runSpeed pl else walkSpeed pl),
         vz := vz (rotatedDirection (p_controls pl)) *
                 (if act_sprint (actions (p_controls pl)) \<and> 0 < stamina (stats pl)
                  then runSpeed pl else walkSpeed pl),
         vy := (if act_jump (actions (p_controls pl)) \<and> isGrounded pl
                then jumpForce pl else vy (p_velocity pl)) \<rparr>"
  by (simp add: updateOnFoot_move_def Let_def)

lemma frame_updateOnFoot_move [simp]:
  "p_body (updateOnFoot_move dt pl) = p_body pl"
  "p_controls (updateOnFoot_move dt pl) = p_controls pl"
  "isInVehicle (updateOnFoot_move dt pl) = isInVehicle pl"
  by (simp_all add: updateOnFoot_move_def Let_def)

lemma stats_updateOnFoot:
  "stats (players (updateOnFoot dt rays p w) p) = stats (updateOnFoot_move dt (players w p))"
  by (simp add: updateOnFoot_def Let_def)


lemma updateOnFoot_cases:
  assumes "\<not> isInVehicle (players w p)"
  shows "isInVehicle (players (updateOnFoot dt rays p w) p) \<and>
         \<not> act_sprint (actions (p_controls (players (updateOnFoot dt rays p w) p))) \<and>
         velocity (bodies (physics (updateOnFoot dt rays p w)) (p_body (players w p)))
           = \<lparr> vx = 0, vy = 0, vz = 0 \<rparr> \<or>
         \<not> isInVehicle (players (updateOnFoot dt rays p w) p) \<and>
         p_controls (players (updateOnFoot dt rays p w) p) = p_controls (players w p) \<and>
         velocity (bodies (physics (updateOnFoot dt rays p w)) (p_body (players w p)))
           = p_velocity (updateOnFoot_move dt (players w p))"
proof -
  let ?pl = "updateOnFoot_move dt (players w p)"
  let ?w2 = "(set_player p ?pl w)\<lparr> physics := setVelocity (p_body ?pl) (p_velocity ?pl) (physics (set_player p ?pl w)) \<rparr>"
  let ?w3 = "if act_enterVehicle (actions (p_controls ?pl)) then checkForNearbyVehicles p rays ?w2 else ?w2"
  have foot: "\<not> isInVehicle (players ?w2 p)"
    using assms by simp
  have ctl: "p_controls (players ?w2 p) = p_controls (players w p)"
    by simp
  have vel: "velocity (bodies (physics ?w2) (p_body (players w p))) = p_velocity ?pl"
    by (simp add: setVelocity_def)
  have shape: "isInVehicle (players (updateOnFoot dt rays p w) p) = isInVehicle (players ?w3 p) \<and>
               p_controls (players (updateOnFoot dt rays p w) p) = p_controls (players ?w3 p) \<and>
               physics (updateOnFoot dt rays p w) = physics ?w3"
    by (simp add: updateOnFoot_def Let_def)
  have bd: "p_body (players ?w2 p) = p_body (players w p)"
    by simp
  have "?w3 = ?w2 \<or>
        isInVehicle (players ?w3 p) \<and> \<not> act_sprint (actions (p_controls (players ?w3 p))) \<and>
        velocity (bodies (physics ?w3) (p_body (players w p))) = \<lparr> vx = 0, vy = 0, vz = 0 \<rparr>"
    using checkForNearbyVehicles_onFoot [OF foot, of rays] unfolding bd by auto
  then show ?thesis
  proof
    assume eq: "?w3 = ?w2"
    show ?thesis
      using shape foot ctl vel unfolding eq by simp
  next
    assume "isInVehicle (players ?w3 p) \<and> \<not> act_sprint (actions (p_controls (players ?w3 p))) \<and>
        velocity (bodies (physics ?w3) (p_body (players w p))) = \<lparr> vx = 0, vy = 0, vz = 0 \<rparr>"
    then show ?thesis
      using shape by simp
  qed
qed

lemma updateOnFoot_quiet:
  "\<not> act_enterVehicle (actions (p_controls (players w p))) \<Longrightarrow>
     isInVehicle (players (updateOnFoot dt rays p w) p) = isInVehicle (players w p) \<and>
     p_controls (players (updateOnFoot dt rays p w) p) = p_controls (players w p)"
  by (simp add: updateOnFoot_def Let_def)

lemma Player_update_onFoot:
  "\<not> isInVehicle (players w p) \<Longrightarrow>
     Player_update dt rays p w =
       (let w1 = updateOnFoot dt rays p
                   (set_player p ((players w p)\<lparr> p_controls := Controls_update dt (p_controls (players w p)) \<rparr>) w);
            pl = players w1 p
        in if \<not> act_sprint (actions (p_controls pl))
           then Returned (set_player p
                  (pl\<lparr> stats := (stats pl)\<lparr> stamina := min (maxStamina (stats pl))
                                                    (stamina (stats pl) + dt * 15) \<rparr> \<rparr>) w1)
           else Returned w1)"
  by (simp add: Player_update_def Let_def)

lemma Player_update_quiet:
  assumes "\<not> isInVehicle (players w p)"
      and "\<not> act_enterVehicle (actions (p_controls (players w p)))"
  shows "stats (players (world_of (Player_update dt rays p w)) p) =
           (stats (players w p))
             \<lparr> stamina :=
                 (if act_sprint (actions (p_controls (players w p)))
                  then (if 0 < stamina (stats (players w p))
                        then max 0 (stamina (stats (players w p)) - dt * 25)
                        else stamina (stats (players w p)))
                  else min (maxStamina (stats (players w p)))
                           (stamina (stats (players w p)) + dt * 15)) \<rparr>"
    and "actions (p_controls (players (world_of (Player_update dt rays p w)) p))
           = actions (p_controls (players w p))"
    and "isInVehicle (players (world_of (Player_update dt rays p w)) p) = False"
proof -
  let ?w0 = "set_player p ((players w p)\<lparr> p_controls := Controls_update dt (p_controls (players w p)) \<rparr>) w"
  have q: "\<not> act_enterVehicle (actions (p_controls (players ?w0 p)))"
    using assms(2) by simp
  note quiet = updateOnFoot_quiet [OF q, of dt rays]
  have st: "stats (players (updateOnFoot dt rays p ?w0) p) =
      (stats (players w p))
        \<lparr> stamina := (if act_sprint (actions (p_controls (players w p))) \<and> 0 < stamina (stats (players w p))
                      then max 0 (stamina (stats (players w p)) - dt * 25)
                      else stamina (stats (players w p))) \<rparr>"
    by (simp add: stats_updateOnFoot stats_updateOnFoot_move)
  have ac: "actions (p_controls (players (updateOnFoot dt rays p ?w0) p)) = actions (p_controls (players w p))"
    using quiet by simp
  have iv: "isInVehicle (players (updateOnFoot dt rays p ?w0) p) = False"
    using quiet assms(1) by simp
  show "stats (players (world_of (Player_update dt rays p w)) p) =
           (stats (players w p))
             \<lparr> stamina :=
                 (if act_sprint (actions (p_controls (players w p)))
                  then (if 0 < stamina (stats (players w p))
                        then max 0 (stamina (stats (players w p)) - dt * 25)
                        else stamina (stats (players w p)))
                  else min (maxStamina (stats (players w p)))
                           (stamina (stats (players w p)) + dt * 15)) \<rparr>"
    by (simp add: Player_update_onFoot [OF assms(1)] Let_def world_of_def st ac)
  show "actions (p_controls (players (world_of (Player_update dt rays p w)) p))
           = actions (p_controls (players w p))"
    by (simp add: Player_update_onFoot [OF assms(1)] Let_def world_of_def ac)
  show "isInVehicle (players (world_of (Player_update dt rays p w)) p) = False"
    by (simp add: Player_update_onFoot [OF assms(1)] Let_def world_of_def iv)
qed





lemma Player_update_onFoot_shape:
  assumes "\<not> isInVehicle (players w p)"
  shows "isInVehicle (players (world_of (Player_update dt rays p w)) p)
           = isInVehicle (players (updateOnFoot dt rays p
               (set_player p ((players w p)\<lparr> p_controls := Controls_update dt (p_controls (players w p)) \<rparr>) w)) p)"
    and "p_controls (players (world_of (Player_update dt rays p w)) p)
           = p_controls (players (updateOnFoot dt rays p
               (set_player p ((players w p)\<lparr> p_controls := Controls_update dt (p_controls (players w p)) \<rparr>) w)) p)"
    and "p_velocity (players (world_of (Player_update dt rays p w)) p)
           = p_velocity (players (updateOnFoot dt rays p
               (set_player p ((players w p)\<lparr> p_controls := Controls_update dt (p_controls (players w p)) \<rparr>) w)) p)"
    and "physics (world_of (Player_update dt rays p w))
           = physics (updateOnFoot dt rays p
               (set_player p ((players w p)\<lparr> p_controls := Controls_update dt (p_controls (players w p)) \<rparr>) w))"
  by (simp_all add: Player_update_onFoot [OF assms] Let_def world_of_def)

lemma Player_update_onFoot_cases:
  assumes "\<not> isInVehicle (players w p)"
  shows "isInVehicle (players (world_of (Player_update dt rays p w)) p) \<and>
         \<not> act_sprint (actions (p_controls (players (world_of (Player_update dt rays p w)) p))) \<and>
         velocity (bodies (physics (world_of (Player_update dt rays p w))) (p_body (players w p)))
           = \<lparr> vx = 0, vy = 0, vz = 0 \<rparr> \<or>
         \<not> isInVehicle (players (world_of (Player_update dt rays p w)) p) \<and>
         actions (p_controls (players (world_of (Player_update dt rays p w)) p))
           = actions (p_controls (players w p)) \<and>
         velocity (bodies (physics (world_of (Player_update dt rays p w))) (p_body (players w p)))
           = p_velocity (updateOnFoot_move dt (players w p))"
proof -
  let ?w0 = "set_player p ((players w p)\<lparr> p_controls := Controls_update dt (p_controls (players w p)) \<rparr>) w"
  have foot: "\<not> isInVehicle (players ?w0 p)"
    using assms by simp
  have b: "p_body (players ?w0 p) = p_body (players w p)"
    by simp
  have a: "actions (p_controls (players ?w0 p)) = actions (p_controls (players w p))"
    by simp
  have m: "p_velocity (updateOnFoot_move dt (players ?w0 p)) = p_velocity (updateOnFoot_move dt (players w p))"
    by (simp add: p_velocity_updateOnFoot_move)
  show ?thesis
    using updateOnFoot_cases [OF foot, of dt rays]
    unfolding Player_update_onFoot_shape [OF assms] b m
    using a by auto
qed


lemma velocity_Player_update_onFoot:
  assumes "\<not> isInVehicle (players w p)"
      and "\<not> isInVehicle (players (world_of (Player_update dt rays p w)) p)"
  shows "velocity (bodies (physics (world_of (Player_update dt rays p w))) (p_body (players w p))) =
     (p_velocity (players w p))
       \<lparr> vx := vx (rotatedDirection (p_controls (players w p))) *
                 (if act_sprint (actions (p_controls (players w p))) \<and> 0 < stamina (stats (players w p))
                  then runSpeed (players w p) else walkSpeed (players w p)),
         vz := vz (rotatedDirection (p_controls (players w p))) *
                 (if act_sprint (actions (p_controls (players w p))) \<and> 0 < stamina (stats (players w p))
                  then runSpeed (players w p) else walkSpeed (players w p)),
         vy := (if act_jump (actions (p_controls (players w p))) \<and> isGrounded (players w p)
                then jumpForce (players w p) else vy (p_velocity (players w p))) \<rparr>"
  using Player_update_onFoot_cases [OF assms(1), of dt rays] assms(2)
  by (simp add: p_velocity_updateOnFoot_move)








lemma userData_setVelocity [simp]:
  "userData (bodies (setVelocity body v ph) b) = userData (bodies ph b)"
  by (simp add: setVelocity_def)





lemma sprint_world_player:
  "players sprint_world 0 =
     (Player_new 100)\<lparr> p_controls := Controls_new\<lparr> actions := sprint_forward \<rparr> \<rparr>"
  by (simp add: sprint_world_def with_actions_def start_world_def Player_new_def)


lemma tired_sprint_world_player:
  "players tired_sprint_world 0 =
     (Player_new 100)\<lparr> p_controls := Controls_new\<lparr> actions := sprint_forward \<rparr>,
                        stats := (stats (Player_new 100))\<lparr> stamina := 0 \<rparr> \<rparr>"
  by (simp add: tired_sprint_world_def with_stamina_def sprint_world_player)


lemma sprint_forward_actions:
  "act_sprint sprint_forward" "act_moveForward sprint_forward"
  "\<not> act_moveBackward sprint_forward" "\<not> act_moveLeft sprint_forward"
  "\<not> act_moveRight sprint_forward" "\<not> act_enterVehicle sprint_forward"
  "\<not> act_jump sprint_forward"
  by (simp_all add: sprint_forward_def Controls_new_def)

lemma rotatedDirection_sprint_forward:
  "rotatedDirection (Controls_new\<lparr> actions := sprint_forward \<rparr>) = \<lparr> vx = 0, vy = 0, vz = - 1.8 \<rparr>"
  by (simp add: rotatedDirection_def getMovementDirection_def Let_def sprint_forward_actions
      vec3_length_def vec3_normalize_def vec3_scale_def applyEulerY_def Controls_new_def)


lemma mission_store_upd_mission [simp]:
  "mission_store (upd_mission m f g) = (mission_store g)(m := f (mission_store g m))"
  by (simp add: upd_mission_def)

lemma msys_upd_mission [simp]: "msys (upd_mission m f g) = msys g"
  by (simp add: upd_mission_def)

lemma world_upd_mission [simp]: "world (upd_mission m f g) = world g"
  by (simp add: upd_mission_def)

lemma the_player_upd_mission [simp]: "the_player (upd_mission m f g) = the_player g"
  by (simp add: the_player_def)

lemma failMission_active:
  "activeMission (msys g) = Some a \<Longrightarrow> reason \<noteq> [] \<Longrightarrow>
     failMission reason g =
       (upd_mission a (\<lambda>M. M\<lparr> status := Failed \<rparr>) g)
         \<lparr> msys := (msys g)\<lparr> notifications := notifications (msys g) @ [MissionFailedNote a reason],
                              activeMission := None \<rparr> \<rparr>"
  by (simp add: failMission_def Let_def)

lemma Mission_update_expired:
  assumes "activeMission (msys g) = Some m" and "status (mission_store g m) = Active"
      and "0 < timeLimit (mission_store g m)"
      and "timeLimit (mission_store g m) \<le> elapsedTime (mission_store g m) + dt"
  shows "Mission_update H dt m g =
           (upd_mission m (\<lambda>M. M\<lparr> elapsedTime := elapsedTime M + dt, status := Failed \<rparr>) g)
             \<lparr> msys := (msys g)\<lparr> notifications := notifications (msys g) @
                                     [MissionFailedNote m ''Time expired''],
                                  activeMission := None \<rparr> \<rparr>"
  using assms
  by (simp add: Mission_update_def Let_def failMission_active upd_mission_def)

lemma objective_met_earlier:
  "objective_met w p e ob \<Longrightarrow> e \<le> e' \<Longrightarrow> objective_met w p e' ob"
  by (auto simp: objective_met_def split: if_splits option.splits)

lemma checkObjectives_quiet:
  "\<forall>ob \<in> set (objectives (mission_store g m)).
      \<not> objective_met (world g) (ms_player (msys g)) (elapsedTime (mission_store g m)) ob \<Longrightarrow>
   checkObjectives H m idx g = g"
proof (induction idx)
  case Nil
  then show ?case by simp
next
  case (Cons i idx)
  have "checkObjective H m i g = g"
  proof (cases "i < length (objectives (mission_store g m))")
    case True
    then have "objectives (mission_store g m) ! i \<in> set (objectives (mission_store g m))"
      by (rule nth_mem)
    with Cons.prems show ?thesis
      by (auto simp: checkObjective_def Let_def)
  next
    case False
    then show ?thesis by (simp add: checkObjective_def)
  qed
  with Cons show ?case by simp
qed

lemma Mission_update_quiet:
  assumes "status (mission_store g m) = Active"
      and "0 < timeLimit (mission_store g m)"
      and "elapsedTime (mission_store g m) + dt < timeLimit (mission_store g m)"
      and "left_alone m g"
  shows "Mission_update H dt m g = upd_mission m (\<lambda>M. M\<lparr> elapsedTime := elapsedTime M + dt \<rparr>) g"
proof -
  let ?g1 = "upd_mission m (\<lambda>M. M\<lparr> elapsedTime := elapsedTime M + dt \<rparr>) g"
  have un: "\<not> objective_met (world g) (ms_player (msys g)) (elapsedTime (mission_store g m) + dt) ob"
    if "ob \<in> set (objectives (mission_store g m))" for ob
  proof
    assume met: "objective_met (world g) (ms_player (msys g)) (elapsedTime (mission_store g m) + dt) ob"
    have le: "elapsedTime (mission_store g m) + dt \<le> timeLimit (mission_store g m)"
      using assms(3) by simp
    have "objective_met (world g) (ms_player (msys g)) (timeLimit (mission_store g m)) ob"
      by (rule objective_met_earlier [OF met le])
    then show False
      using assms(4) that by (simp add: left_alone_def)
  qed
  have q: "\<forall>ob \<in> set (objectives (mission_store ?g1 m)).
      \<not> objective_met (world ?g1) (ms_player (msys ?g1)) (elapsedTime (mission_store ?g1 m)) ob"
    using un by simp
  have h: "0 < stats_health (stats (the_player g))"
    using assms(4) by (simp add: left_alone_def)
  have v: "\<not> (requireVehicle (mission_store g m) \<and> \<not> isInVehicle (the_player g))"
    using assms(4) by (auto simp: left_alone_def)
  have u: "onUpdate (mission_store g m) = None"
    using assms(4) by (simp add: left_alone_def)
  have c: "checkMissionConditions H m ?g1 = ?g1"
    using h v by (auto simp: checkMissionConditions_def Let_def checkObjectives_quiet [OF q])
  show ?thesis
    using assms(1-3) u by (simp add: Mission_update_def Let_def c)
qed

lemma checkCheckpoints_quiet:
  "\<forall>cp \<in> set (checkpoints (mission_store g m)). \<not> isPlayerInCheckpoint g cp \<Longrightarrow>
   checkCheckpoints H m idx g = g"
proof (induction idx)
  case Nil
  then show ?case by simp
next
  case (Cons i idx)
  have "checkCheckpoint H m i g = g"
  proof (cases "i < length (checkpoints (mission_store g m))")
    case True
    then have "checkpoints (mission_store g m) ! i \<in> set (checkpoints (mission_store g m))"
      by (rule nth_mem)
    with Cons.prems show ?thesis
      by (auto simp: checkCheckpoint_def)
  next
    case False
    then show ?thesis by (simp add: checkCheckpoint_def)
  qed
  with Cons show ?case by simp
qed

lemma checkMissionTriggerList_quiet:
  "\<not> act_interact (actions (p_controls (the_player g))) \<Longrightarrow> checkMissionTriggerList H mks g = g"
  by (induction mks) (simp_all add: checkMissionTrigger_def)

lemma updateMissionMarkers_frame [simp]:
  "world (updateMissionMarkers dt now g) = world g"
  "mission_store (updateMissionMarkers dt now g) = mission_store g"
  "the_player (updateMissionMarkers dt now g) = the_player g"
  "ms_player (msys (updateMissionMarkers dt now g)) = ms_player (msys g)"
  "activeMission (msys (updateMissionMarkers dt now g)) = activeMission (msys g)"
  "notifications (msys (updateMissionMarkers dt now g)) = notifications (msys g)"
  "completedMissions (msys (updateMissionMarkers dt now g)) = completedMissions (msys g)"
  "missions (msys (updateMissionMarkers dt now g)) = missions (msys g)"
  "(missionMarkers (msys (updateMissionMarkers dt now g)) = []) = (missionMarkers (msys g) = [])"
  by (simp_all add: updateMissionMarkers_def the_player_def)

lemma checkMissionTriggers_quiet:
  assumes "missionMarkers (msys g) = [] \<or> \<not> act_interact (actions (p_controls (the_player g)))"
  shows "checkMissionTriggers H (updateMissionMarkers dt now g) = updateMissionMarkers dt now g"
proof (cases "missionMarkers (msys g) = []")
  case True
  then have mm: "missionMarkers (msys (updateMissionMarkers dt now g)) = []"
    by simp
  show ?thesis
    unfolding checkMissionTriggers_def mm by simp
next
  case False
  then have "\<not> act_interact (actions (p_controls (the_player (updateMissionMarkers dt now g))))"
    using assms by simp
  then show ?thesis
    unfolding checkMissionTriggers_def by (rule checkMissionTriggerList_quiet)
qed

lemma left_alone_interact:
  "left_alone m g \<Longrightarrow>
     missionMarkers (msys g) = [] \<or> \<not> act_interact (actions (p_controls (the_player g)))"
  by (simp add: left_alone_def)

lemma left_alone_eq:
  assumes "onUpdate (mission_store g' m) = onUpdate (mission_store g m)"
      and "requireVehicle (mission_store g' m) = requireVehicle (mission_store g m)"
      and "objectives (mission_store g' m) = objectives (mission_store g m)"
      and "timeLimit (mission_store g' m) = timeLimit (mission_store g m)"
      and "checkpoints (mission_store g' m) = checkpoints (mission_store g m)"
      and "world g' = world g"
      and "ms_player (msys g') = ms_player (msys g)"
      and "(missionMarkers (msys g') = []) = (missionMarkers (msys g) = [])"
  shows "left_alone m g' = left_alone m g"
  using assms by (simp add: left_alone_def isPlayerInCheckpoint_def the_player_def)

lemma expired_frame:
  assumes "activeMission (msys g) = Some m" and "status (mission_store g m) = Active"
      and "0 < timeLimit (mission_store g m)"
      and "timeLimit (mission_store g m) \<le> elapsedTime (mission_store g m) + dt"
  shows "MissionSystem_update H dt now g =
           Thrown ((upd_mission m (\<lambda>M. M\<lparr> elapsedTime := elapsedTime M + dt, status := Failed \<rparr>) g)
             \<lparr> msys := (msys g)\<lparr> notifications := notifications (msys g) @
                                     [MissionFailedNote m ''Time expired''],
                                  activeMission := None \<rparr> \<rparr>)"
  by (simp add: MissionSystem_update_def Let_def assms(1) Mission_update_expired [OF assms])

lemma quiet_frame:
  assumes "activeMission (msys g) = Some m" and "status (mission_store g m) = Active"
      and "0 < timeLimit (mission_store g m)"
      and "elapsedTime (mission_store g m) + dt < timeLimit (mission_store g m)"
      and "left_alone m g"
  shows "MissionSystem_update H dt now g =
           Done (updateMissionMarkers dt now
                  (upd_mission m (\<lambda>M. M\<lparr> elapsedTime := elapsedTime M + dt \<rparr>) g))"
proof -
  let ?g1 = "upd_mission m (\<lambda>M. M\<lparr> elapsedTime := elapsedTime M + dt \<rparr>) g"
  have mu: "Mission_update H dt m g = ?g1"
    by (rule Mission_update_quiet [OF assms(2-5)])
  have la: "left_alone m ?g1"
    using assms(5) by (simp add: left_alone_eq [of ?g1 m g])
  have cp: "\<forall>cp \<in> set (checkpoints (mission_store ?g1 m)). \<not> isPlayerInCheckpoint ?g1 cp"
    using la by (simp add: left_alone_def)
  have cc: "checkCheckpoints H m idx ?g1 = ?g1" for idx
    by (rule checkCheckpoints_quiet [OF cp])
  have tr: "checkMissionTriggers H (updateMissionMarkers dt now ?g1) = updateMissionMarkers dt now ?g1"
    by (rule checkMissionTriggers_quiet [OF left_alone_interact [OF la]])
  have am: "activeMission (msys ?g1) = Some m"
    using assms(1) by simp
  show ?thesis
    by (simp add: MissionSystem_update_def Let_def assms(1) mu am cc tr)
qed

lemma idle_frame:
  assumes "activeMission (msys g) = None"
      and "missionMarkers (msys g) = [] \<or> \<not> act_interact (actions (p_controls (the_player g)))"
  shows "MissionSystem_update H dt now g = Done (updateMissionMarkers dt now g)"
  by (simp add: MissionSystem_update_def assms(1) checkMissionTriggers_quiet [OF assms(2)])

lemma frame_state_frame [simp]:
  "mission_store (frame_state fr g) = mission_store g"
  "msys (frame_state fr g) = msys g"
  "world (frame_state fr g) = fr_before fr (world g)"
  by (simp_all add: frame_state_def)

lemma MissionSystem_updates_Cons:
  "MissionSystem_updates H (fr # frames) g = MissionSystem_updates H frames (MissionSystem_frame H fr g)"
  by (simp add: MissionSystem_updates_def)

lemma MissionSystem_updates_Nil: "MissionSystem_updates H [] g = g"
  by (simp add: MissionSystem_updates_def)

lemma idle_run:
  "activeMission (msys g) = None \<Longrightarrow> left_alone_run H m frames g \<Longrightarrow>
     mission_store (MissionSystem_updates H frames g) = mission_store g \<and>
     notifications (msys (MissionSystem_updates H frames g)) = notifications (msys g) \<and>
     activeMission (msys (MissionSystem_updates H frames g)) = None \<and>
     completedMissions (msys (MissionSystem_updates H frames g)) = completedMissions (msys g) \<and>
     world (MissionSystem_updates H frames g) = fold fr_before frames (world g)"
proof (induction frames arbitrary: g)
  case Nil
  then show ?case by (simp add: MissionSystem_updates_Nil)
next
  case (Cons fr frames)
  let ?g0 = "frame_state fr g"
  have la: "left_alone m ?g0" and rest: "left_alone_run H m frames (MissionSystem_frame H fr g)"
    using Cons.prems(2) by simp_all
  have none: "activeMission (msys ?g0) = None"
    using Cons.prems(1) by simp
  have u: "MissionSystem_frame H fr g = updateMissionMarkers (fr_deltaTime fr) (fr_now fr) ?g0"
    unfolding MissionSystem_frame_def idle_frame [OF none left_alone_interact [OF la]]
    by (simp add: game_of_def)
  have n1: "activeMission (msys (MissionSystem_frame H fr g)) = None"
    using Cons.prems(1) by (simp add: u)
  show ?case
    using Cons.IH [OF n1 rest]
    unfolding MissionSystem_updates_Cons by (simp add: u)
qed

lemma timed_run:
  "activeMission (msys g) = Some m \<Longrightarrow> status (mission_store g m) = Active \<Longrightarrow>
   0 < timeLimit (mission_store g m) \<Longrightarrow>
   elapsedTime (mission_store g m) < timeLimit (mission_store g m) \<Longrightarrow>
   left_alone_run H m frames g \<Longrightarrow>
   timeLimit (mission_store g m) \<le> elapsedTime (mission_store g m) + sum_list (map fr_deltaTime frames) \<Longrightarrow>
     status (mission_store (MissionSystem_updates H frames g) m) = Failed \<and>
     notifications (msys (MissionSystem_updates H frames g))
       = notifications (msys g) @ [MissionFailedNote m ''Time expired''] \<and>
     activeMission (msys (MissionSystem_updates H frames g)) = None \<and>
     completedMissions (msys (MissionSystem_updates H frames g)) = completedMissions (msys g) \<and>
     world (MissionSystem_updates H frames g) = fold fr_before frames (world g)"
proof (induction frames arbitrary: g)
  case Nil
  then show ?case by simp
next
  case (Cons fr frames)
  let ?g0 = "frame_state fr g"
  let ?dt = "fr_deltaTime fr"
  let ?g' = "MissionSystem_frame H fr g"
  have la: "left_alone m ?g0" and rest: "left_alone_run H m frames ?g'"
    using Cons.prems(5) by simp_all
  have a0: "activeMission (msys ?g0) = Some m" "status (mission_store ?g0 m) = Active"
           "0 < timeLimit (mission_store ?g0 m)"
    using Cons.prems(1-3) by simp_all
  show ?case
  proof (cases "timeLimit (mission_store g m) \<le> elapsedTime (mission_store g m) + ?dt")
    case True
    then have e0: "timeLimit (mission_store ?g0 m) \<le> elapsedTime (mission_store ?g0 m) + ?dt"
      by simp
    have u: "?g' =
           (upd_mission m (\<lambda>M. M\<lparr> elapsedTime := elapsedTime M + ?dt, status := Failed \<rparr>) ?g0)
             \<lparr> msys := (msys ?g0)\<lparr> notifications := notifications (msys ?g0) @
                                     [MissionFailedNote m ''Time expired''],
                                  activeMission := None \<rparr> \<rparr>"
      unfolding MissionSystem_frame_def expired_frame [OF a0 e0]
      by (simp add: game_of_def)
    have idle: "activeMission (msys ?g') = None"
      by (simp add: u)
    show ?thesis
      using idle_run [OF idle rest]
      unfolding MissionSystem_updates_Cons by (simp add: u)
  next
    case False
    then have lt: "elapsedTime (mission_store ?g0 m) + ?dt < timeLimit (mission_store ?g0 m)"
      by simp
    have u: "?g' = updateMissionMarkers ?dt (fr_now fr)
                     (upd_mission m (\<lambda>M. M\<lparr> elapsedTime := elapsedTime M + ?dt \<rparr>) ?g0)"
      unfolding MissionSystem_frame_def quiet_frame [OF a0 lt la]
      by (simp add: game_of_def)
    have "status (mission_store (MissionSystem_updates H frames ?g') m) = Failed \<and>
     notifications (msys (MissionSystem_updates H frames ?g'))
       = notifications (msys ?g') @ [MissionFailedNote m ''Time expired''] \<and>
     activeMission (msys (MissionSystem_updates H frames ?g')) = None \<and>
     completedMissions (msys (MissionSystem_updates H frames ?g')) = completedMissions (msys ?g') \<and>
     world (MissionSystem_updates H frames ?g') = fold fr_before frames (world ?g')"
      using Cons.prems(1-4,6) lt rest
      by (intro Cons.IH) (simp_all add: u algebra_simps)
    then show ?thesis
      unfolding MissionSystem_updates_Cons by (simp add: u)
  qed
qed

lemma early_run:
  "activeMission (msys g) = Some m \<Longrightarrow> status (mission_store g m) = Active \<Longrightarrow>
   0 < timeLimit (mission_store g m) \<Longrightarrow>
   left_alone_run H m frames g \<Longrightarrow>
   \<forall>fr \<in> set frames. 0 \<le> fr_deltaTime fr \<Longrightarrow>
   elapsedTime (mission_store g m) + sum_list (map fr_deltaTime frames) < timeLimit (mission_store g m) \<Longrightarrow>
     status (mission_store (MissionSystem_updates H frames g) m) = Active \<and>
     activeMission (msys (MissionSystem_updates H frames g)) = Some m \<and>
     elapsedTime (mission_store (MissionSystem_updates H frames g) m)
       = elapsedTime (mission_store g m) + sum_list (map fr_deltaTime frames) \<and>
     notifications (msys (MissionSystem_updates H frames g)) = notifications (msys g) \<and>
     completedMissions (msys (MissionSystem_updates H frames g)) = completedMissions (msys g) \<and>
     world (MissionSystem_updates H frames g) = fold fr_before frames (world g)"
proof (induction frames arbitrary: g)
  case Nil
  then show ?case by (simp add: MissionSystem_updates_Nil)
next
  case (Cons fr frames)
  let ?g0 = "frame_state fr g"
  let ?dt = "fr_deltaTime fr"
  let ?g' = "MissionSystem_frame H fr g"
  have la: "left_alone m ?g0" and rest: "left_alone_run H m frames ?g'"
    using Cons.prems(4) by simp_all
  have a0: "activeMission (msys ?g0) = Some m" "status (mission_store ?g0 m) = Active"
           "0 < timeLimit (mission_store ?g0 m)"
    using Cons.prems(1-3) by simp_all
  have nn: "\<forall>fr \<in> set frames. 0 \<le> fr_deltaTime fr"
    using Cons.prems(5) by simp
  have sum: "0 \<le> sum_list (map fr_deltaTime frames)"
    using nn by (intro sum_list_nonneg) auto
  have lt: "elapsedTime (mission_store ?g0 m) + ?dt < timeLimit (mission_store ?g0 m)"
    using Cons.prems(6) sum by simp
  have u: "?g' = updateMissionMarkers ?dt (fr_now fr)
                   (upd_mission m (\<lambda>M. M\<lparr> elapsedTime := elapsedTime M + ?dt \<rparr>) ?g0)"
    unfolding MissionSystem_frame_def quiet_frame [OF a0 lt la]
    by (simp add: game_of_def)
  have "status (mission_store (MissionSystem_updates H frames ?g') m) = Active \<and>
     activeMission (msys (MissionSystem_updates H frames ?g')) = Some m \<and>
     elapsedTime (mission_store (MissionSystem_updates H frames ?g') m)
       = elapsedTime (mission_store ?g' m) + sum_list (map fr_deltaTime frames) \<and>
     notifications (msys (MissionSystem_updates H frames ?g')) = notifications (msys ?g') \<and>
     completedMissions (msys (MissionSystem_updates H frames ?g')) = completedMissions (msys ?g') \<and>
     world (MissionSystem_updates H frames ?g') = fold fr_before frames (world ?g')"
    using Cons.prems(1-3,6) rest nn
    by (intro Cons.IH) (simp_all add: u algebra_simps)
  then show ?case
    unfolding MissionSystem_updates_Cons by (simp add: u algebra_simps)
qed

lemma still_frame_state:
  "fr_before fr = (\<lambda>w. w) \<Longrightarrow> frame_state fr g = g"
  by (simp add: frame_state_def)

lemma still_run:
  "left_alone m g \<Longrightarrow>
   activeMission (msys g) = None \<or>
     activeMission (msys g) = Some m \<and> status (mission_store g m) = Active \<and>
     0 < timeLimit (mission_store g m) \<Longrightarrow>
   \<forall>fr \<in> set frames. fr_before fr = (\<lambda>w. w) \<Longrightarrow>
     left_alone_run H m frames g"
proof (induction frames arbitrary: g)
  case Nil
  then show ?case by simp
next
  case (Cons fr frames)
  let ?dt = "fr_deltaTime fr"
  let ?g' = "MissionSystem_frame H fr g"
  have fs: "frame_state fr g = g"
    using Cons.prems(3) by (simp add: still_frame_state)
  have rest: "\<forall>fr \<in> set frames. fr_before fr = (\<lambda>w. w)"
    using Cons.prems(3) by simp
  have step: "left_alone m ?g' \<and>
        (activeMission (msys ?g') = None \<or>
         activeMission (msys ?g') = Some m \<and> status (mission_store ?g' m) = Active \<and>
         0 < timeLimit (mission_store ?g' m))"
  proof (cases "activeMission (msys g) = None")
    case True
    have u: "?g' = updateMissionMarkers ?dt (fr_now fr) g"
      unfolding MissionSystem_frame_def fs
        idle_frame [OF True left_alone_interact [OF Cons.prems(1)]]
      by (simp add: game_of_def)
    show ?thesis
      using True Cons.prems(1) by (simp add: u left_alone_eq [of "updateMissionMarkers ?dt (fr_now fr) g" m g])
  next
    case False
    then have a: "activeMission (msys g) = Some m" "status (mission_store g m) = Active"
                 "0 < timeLimit (mission_store g m)"
      using Cons.prems(2) by auto
    show ?thesis
    proof (cases "timeLimit (mission_store g m) \<le> elapsedTime (mission_store g m) + ?dt")
      case True
      let ?gf = "(upd_mission m (\<lambda>M. M\<lparr> elapsedTime := elapsedTime M + ?dt, status := Failed \<rparr>) g)
             \<lparr> msys := (msys g)\<lparr> notifications := notifications (msys g) @
                                     [MissionFailedNote m ''Time expired''],
                                  activeMission := None \<rparr> \<rparr>"
      have u: "?g' = ?gf"
        unfolding MissionSystem_frame_def fs expired_frame [OF a True]
        by (simp add: game_of_def)
      have "left_alone m ?gf = left_alone m g"
        by (rule left_alone_eq) simp_all
      then show ?thesis
        using Cons.prems(1) by (simp add: u)
    next
      case False
      then have lt: "elapsedTime (mission_store g m) + ?dt < timeLimit (mission_store g m)"
        by simp
      let ?gq = "updateMissionMarkers ?dt (fr_now fr)
                   (upd_mission m (\<lambda>M. M\<lparr> elapsedTime := elapsedTime M + ?dt \<rparr>) g)"
      have u: "?g' = ?gq"
        unfolding MissionSystem_frame_def fs quiet_frame [OF a lt Cons.prems(1)]
        by (simp add: game_of_def)
      have "left_alone m ?gq = left_alone m g"
        by (rule left_alone_eq) simp_all
      then show ?thesis
        using Cons.prems(1) a by (simp add: u)
    qed
  qed
  have "left_alone_run H m frames ?g'"
    using step rest by (intro Cons.IH) simp_all
  then show ?case
    using Cons.prems(1) by (simp add: fs)
qed

lemma createCheckpoint_frame [simp]:
  "msys (createCheckpoint m pos cb g) = msys g"
  "world (createCheckpoint m pos cb g) = world g"
  "status (mission_store (createCheckpoint m pos cb g) m') = status (mission_store g m')"
  "elapsedTime (mission_store (createCheckpoint m pos cb g) m') = elapsedTime (mission_store g m')"
  by (simp_all add: createCheckpoint_def)

lemma Mission_initialize_unfold:
  "Mission_initialize H m (upd_mission m (\<lambda>M. M\<lparr> status := Active \<rparr>)
        (g\<lparr> msys := (msys g)\<lparr> activeMission := Some m \<rparr> \<rparr>)) =
     (let g2 = (case onStart (mission_store g m) of
                  Some h \<Rightarrow> H h m 0 (state_at_onStart m g)
                | None \<Rightarrow> state_at_onStart m g)
      in case endLocation (mission_store g2 m) of
           Some loc \<Rightarrow> createCheckpoint m loc EndLocationReached g2
         | None \<Rightarrow> g2)"
  by (cases "onStart (mission_store g m)")
     (simp_all add: Mission_initialize_def state_at_onStart_def Let_def cong: option.case_cong)

lemma startMission_rejected:
  "activeMission (msys g) \<noteq> None \<Longrightarrow> startMission H m g = (False, g)"
  by (simp add: startMission_def)

lemma startMission_accepted:
  "activeMission (msys g) = None \<Longrightarrow>
     startMission H m g =
       (True, Mission_initialize H m (upd_mission m (\<lambda>M. M\<lparr> status := Active \<rparr>)
                 (g\<lparr> msys := (msys g)\<lparr> activeMission := Some m \<rparr> \<rparr>)))"
  by (simp add: startMission_def Let_def)

lemma state_at_onStart_facts [simp]:
  "activeMission (msys (state_at_onStart m g)) = Some m"
  "status (mission_store (state_at_onStart m g) m) = Active"
  by (simp_all add: state_at_onStart_def)

lemma startMission_activates:
  assumes "activeMission (msys g) = None" and "onStart_keeps_active H m g"
  shows "activeMission (msys (snd (startMission H m g))) = Some m"
    and "status (mission_store (snd (startMission H m g)) m) = Active"
  using assms(2)
  by (auto simp: startMission_accepted [OF assms(1)] Mission_initialize_unfold Let_def
      onStart_keeps_active_def split: option.splits)

lemma startMissions_busy:
  "activeMission (msys g) \<noteq> None \<Longrightarrow> startMissions H ms g = g"
  by (induction ms) (simp_all add: startMissions_def startMission_rejected)

lemma startMissions_Cons:
  "startMissions H (m # ms) g = startMissions H ms (snd (startMission H m g))"
  by (simp add: startMissions_def)

lemma delivery_game_eq:
  "delivery_game =
     start_game\<lparr> mission_store := (mission_store start_game)(0 := deliveryMission),
                 msys := (msys start_game)\<lparr> missions := [0] \<rparr> \<rparr>"
  by (simp add: delivery_game_def createMission_def createMissionMarker_def Let_def game_of_def
      start_game_def deliveryMission_def)

lemma delivery_game_facts:
  "activeMission (msys delivery_game) = None"
  "mission_store delivery_game 0 = deliveryMission"
  "world delivery_game = start_world"
  "ms_player (msys delivery_game) = 0"
  "notifications (msys delivery_game) = []"
  "missionMarkers (msys delivery_game) = []"
  by (simp_all add: delivery_game_eq start_game_def)

lemma sample_hook_0 [simp]: "sample_hooks 0 m dt g = g"
  by (simp add: sample_hooks_def)

lemma delivery_onStart_keeps:
  "onStart (mission_store g 0) = Some 0 \<Longrightarrow> onStart_keeps_active sample_hooks 0 g"
  by (simp add: onStart_keeps_active_def)

lemma started_game_mission:
  "mission_store started_game 0 =
     deliveryMission\<lparr> status := Active,
        checkpoints := [\<lparr> cp_position = \<lparr> vx = - 30, vy = 1, vz = - 30 \<rparr>, cp_radius = 2,
                         cp_active = True, cp_triggered = False,
                         cp_triggerCallback = EndLocationReached, cp_mission = 0 \<rparr>] \<rparr>"
  by (simp add: started_game_def startMission_def delivery_game_eq
      start_game_def Mission_initialize_def Let_def createCheckpoint_def upd_mission_def
      deliveryMission_def plain_objective_def)

lemma started_game_msys:
  "msys started_game =
     \<lparr> ms_player = 0, missions = [0], activeMission = Some 0, completedMissions = [],
       missionMarkers = [], notifications = [] \<rparr>"
  by (simp add: started_game_def startMission_def delivery_game_eq
      start_game_def Mission_initialize_def Let_def createCheckpoint_def upd_mission_def
      deliveryMission_def plain_objective_def)

lemma started_game_world: "world started_game = start_world"
  by (simp add: started_game_def startMission_def delivery_game_eq
      start_game_def Mission_initialize_def Let_def createCheckpoint_def upd_mission_def
      deliveryMission_def plain_objective_def)

lemma started_game_facts:
  "activeMission (msys started_game) = Some 0"
  "status (mission_store started_game 0) = Active"
  "timeLimit (mission_store started_game 0) = 180"
  "elapsedTime (mission_store started_game 0) = 0"
  "onUpdate (mission_store started_game 0) = None"
  "onStart (mission_store started_game 0) = Some 0"
  "requireVehicle (mission_store started_game 0) = False"
  "objectives (mission_store started_game 0) = objectives deliveryMission"
  "rewards (mission_store started_game 0) = rewards deliveryMission"
  "world started_game = start_world"
  "ms_player (msys started_game) = 0"
  "notifications (msys started_game) = []"
  "completedMissions (msys started_game) = []"
  "missionMarkers (msys started_game) = []"
  "checkpoints (mission_store started_game 0) =
     [\<lparr> cp_position = \<lparr> vx = - 30, vy = 1, vz = - 30 \<rparr>, cp_radius = 2,
        cp_active = True, cp_triggered = False,
        cp_triggerCallback = EndLocationReached, cp_mission = 0 \<rparr>]"
  by (simp_all add: started_game_mission started_game_msys started_game_world)
     (simp_all add: deliveryMission_def)

lemma started_player: "the_player started_game = Player_new 100"
  by (simp add: the_player_def started_game_facts start_world_def)

lemma started_game_left_alone: "left_alone 0 started_game"
proof -
  have "(2 :: real) < sqrt 1801"
    by (rule real_less_rsqrt) simp
  then have far: "\<not> sqrt 1801 \<le> (2 :: real)"
    by simp
  have cp: "\<forall>cp \<in> set (checkpoints (mission_store started_game 0)).
              \<not> isPlayerInCheckpoint started_game cp"
    using far
    by (simp add: started_game_facts isPlayerInCheckpoint_def started_player Player_new_def
        vec3_distance_def)
  have ob: "\<forall>ob \<in> set (objectives (mission_store started_game 0)).
      \<not> objective_met (world started_game) (ms_player (msys started_game))
          (timeLimit (mission_store started_game 0)) ob"
    by (simp add: started_game_facts deliveryMission_def plain_objective_def objective_met_def)
  have h: "0 < stats_health (stats (the_player started_game))"
    by (simp add: started_player Player_new_def)
  show ?thesis
    unfolding left_alone_def
    using cp ob h by (simp add: started_game_facts)
qed

lemma failed_game_eq:
  "failed_game =
     (upd_mission 0 (\<lambda>M. M\<lparr> elapsedTime := elapsedTime M + 181, status := Failed \<rparr>) started_game)
       \<lparr> msys := (msys started_game)\<lparr> notifications := notifications (msys started_game) @
                                          [MissionFailedNote 0 ''Time expired''],
                                      activeMission := None \<rparr> \<rparr>"
proof -
  have e: "timeLimit (mission_store started_game 0) \<le> elapsedTime (mission_store started_game 0) + 181"
    by (simp add: started_game_facts)
  have l: "0 < timeLimit (mission_store started_game 0)"
    by (simp add: started_game_facts)
  show ?thesis
    unfolding failed_game_def
      expired_frame [OF started_game_facts(1) started_game_facts(2) l e]
    by (simp add: game_of_def)
qed

lemma failed_game_facts:
  "status (mission_store failed_game 0) = Failed"
  "activeMission (msys failed_game) = None"
  "onStart (mission_store failed_game 0) = Some 0"
  by (simp_all add: failed_game_eq started_game_facts)

lemma awardMissionRewards_frame [simp]:
  "mission_store (awardMissionRewards m g) = mission_store g"
  "msys (awardMissionRewards m g) = msys g"
proof -
  have f: "mission_store (fold (\<lambda>item g'. g'\<lparr> world := collectItem (ms_player (msys g')) item (world g') \<rparr>) its g')
             = mission_store g' \<and>
           msys (fold (\<lambda>item g'. g'\<lparr> world := collectItem (ms_player (msys g')) item (world g') \<rparr>) its g')
             = msys g'" for its g'
    by (induction its arbitrary: g') simp_all
  show "mission_store (awardMissionRewards m g) = mission_store g"
    by (simp add: awardMissionRewards_def Let_def f upd_player_def split: option.splits)
  show "msys (awardMissionRewards m g) = msys g"
    by (simp add: awardMissionRewards_def Let_def f upd_player_def split: option.splits)
qed

lemma completed_game_facts:
  "status (mission_store completed_game 0) = Completed"
  "activeMission (msys completed_game) = None"
  "onStart (mission_store completed_game 0) = Some 0"
  "completedMissions (msys completed_game) = [0]"
  by (simp_all add: completed_game_def completeMission_def started_game_facts Let_def)


subsection \<open>Steering (C8)\<close>

text \<open>
  C8. Every \<open>applyControls\<close> call on a vehicle with its four wheels stores, at the two
  front wheels (indices 0 and 1), the steering value
  \<open>steering * steeringClamp * max(0.5, 1 - speed / maxSpeed)\<close>. With steering input 1,
  clamp 0.5 and maximal speed 150 this is 0.5 at speed 0 and 0.25 at speed 150, where the
  factor has reached its floor.
\<close>

theorem applyControls_front_steering:
  "length (wheelInfos (vehicle v)) = 4 \<Longrightarrow>
     wheel_steering (wheelInfos (vehicle (applyControls c v)) ! 0)
       = steering c * steeringClamp (vehicle v) * max 0.5 (1 - speed (state v) / maxSpeed (options v)) \<and>
     wheel_steering (wheelInfos (vehicle (applyControls c v)) ! 1)
       = steering c * steeringClamp (vehicle v) * max 0.5 (1 - speed (state v) / maxSpeed (options v)) \<and>
     (steering c = 1 \<and> steeringClamp (vehicle v) = 0.5 \<and> maxSpeed (options v) = 150 \<and>
      speed (state v) = 0 \<longrightarrow>
        wheel_steering (wheelInfos (vehicle (applyControls c v)) ! 0) = 0.5 \<and>
        wheel_steering (wheelInfos (vehicle (applyControls c v)) ! 1) = 0.5) \<and>
     (steering c = 1 \<and> steeringClamp (vehicle v) = 0.5 \<and> maxSpeed (options v) = 150 \<and>
      speed (state v) = 150 \<longrightarrow>
        wheel_steering (wheelInfos (vehicle (applyControls c v)) ! 0) = 0.25 \<and>
        wheel_steering (wheelInfos (vehicle (applyControls c v)) ! 1) = 0.25)"
proof -
  assume len: "length (wheelInfos (vehicle v)) = 4"
  have a: "wheel_steering (wheelInfos (vehicle (applyControls c v)) ! 0)
       = steering c * steeringClamp (vehicle v) * max 0.5 (1 - speed (state v) / maxSpeed (options v))"
    by (rule front_wheels_applyControls(1) [OF len])
  have b: "wheel_steering (wheelInfos (vehicle (applyControls c v)) ! 1)
       = steering c * steeringClamp (vehicle v) * max 0.5 (1 - speed (state v) / maxSpeed (options v))"
    by (rule front_wheels_applyControls(2) [OF len])
  show ?thesis
    unfolding a b by simp
qed

theorem applyControls_front_steering_witness:
  "length (wheelInfos (vehicle (vehicles sedan_world 0))) = 4 \<and>
   wheel_steering (wheelInfos (vehicle (applyControls steer_right (vehicles sedan_world 0))) ! 0) = 0.5 \<and>
   wheel_steering (wheelInfos (vehicle (applyControls steer_right (vehicles sedan_world 0))) ! 1) = 0.5 \<and>
   wheel_steering (wheelInfos (vehicle (applyControls steer_right
      ((vehicles sedan_world 0)\<lparr> state := (state (vehicles sedan_world 0))\<lparr> speed := 150 \<rparr> \<rparr>))) ! 0) = 0.25 \<and>
   wheel_steering (wheelInfos (vehicle (applyControls steer_right
      ((vehicles sedan_world 0)\<lparr> state := (state (vehicles sedan_world 0))\<lparr> speed := 150 \<rparr> \<rparr>))) ! 1) = 0.25"
proof -
  have len: "length (wheelInfos (vehicle (vehicles sedan_world 0))) = 4"
    by (simp add: sedan_vehicle)
  have len': "length (wheelInfos (vehicle ((vehicles sedan_world 0)\<lparr> state := (state (vehicles sedan_world 0))\<lparr> speed := 150 \<rparr> \<rparr>))) = 4"
    by (simp add: sedan_vehicle)
  show ?thesis
    using len applyControls_front_steering [OF len, of steer_right]
      applyControls_front_steering [OF len', of steer_right]
    by (simp add: sedan_vehicle steer_right_def)
qed

subsection \<open>Damage, repair and destruction (C7)\<close>

text \<open>
  C7. From health 100, \<open>takeDamage(60)\<close> leaves health 40 with the damaged flag set;
  \<open>repair(30)\<close> then leaves health 70 with the flag cleared and returns 30; a following
  \<open>takeDamage(100)\<close> clamps the health to 0 and runs \<open>destroy()\<close> (the body is blackened),
  which makes a driving player leave: the vehicle has no driver, its engine is off, and the
  player is on foot.
\<close>

theorem damage_repair_scenario:
  assumes h: "health (state (vehicles w vr)) = 100"
  shows "let w1 = takeDamage vr 60 w;
             r = fst (repair_in vr 30 w1);
             w2 = snd (repair_in vr 30 w1);
             w3 = takeDamage vr 100 w2
         in health (state (vehicles w1 vr)) = 40 \<and> damaged (state (vehicles w1 vr)) \<and>
            health (state (vehicles w2 vr)) = 70 \<and> \<not> damaged (state (vehicles w2 vr)) \<and> r = 30 \<and>
            health (state (vehicles w3 vr)) = 0 \<and>
            w3 = destroy vr (set_vehicle vr
                   (applyDamageVisuals ((vehicles w2 vr)\<lparr> state := (state (vehicles w2 vr))
                        \<lparr> health := 0, damaged := True \<rparr> \<rparr>)) w2) \<and>
            body_material (vehicles w3 vr) = \<lparr> color = 0x111111, roughness = 1, metalness = 0 \<rparr> \<and>
            (driver (state (vehicles w vr)) = Some (PlayerDriver p) \<and>
             isInVehicle (players w p) \<and> currentVehicle (players w p) = Some vr \<longrightarrow>
               driver (state (vehicles w3 vr)) = None \<and> \<not> engineOn (state (vehicles w3 vr)) \<and>
               \<not> isInVehicle (players w3 p) \<and> currentVehicle (players w3 p) = None)"
proof -
  define w1 where "w1 = takeDamage vr 60 w"
  define w2 where "w2 = snd (repair_in vr 30 w1)"
  define w3 where "w3 = takeDamage vr 100 w2"
  have w1: "w1 = set_vehicle vr
      (applyDamageVisuals ((vehicles w vr)\<lparr> state := (state (vehicles w vr))\<lparr> health := 40, damaged := True \<rparr> \<rparr>)) w"
    if "\<not> damaged (state (vehicles w vr))"
    using h that unfolding w1_def by (simp add: takeDamage_alive Let_def)
  have w1': "w1 = set_vehicle vr
      ((vehicles w vr)\<lparr> state := (state (vehicles w vr))\<lparr> health := 40 \<rparr> \<rparr>) w"
    if "damaged (state (vehicles w vr))"
    using h that unfolding w1_def by (simp add: takeDamage_alive Let_def)
  have s1: "state (vehicles w1 vr) = (state (vehicles w vr))\<lparr> health := 40, damaged := True \<rparr>"
    using w1 w1' by (cases "damaged (state (vehicles w vr))") (simp_all add: applyDamageVisuals_def)
  have p1: "players w1 = players w"
    using w1 w1' by (cases "damaged (state (vehicles w vr))") simp_all
  have s2: "state (vehicles w2 vr) = (state (vehicles w vr))\<lparr> health := 70, damaged := False \<rparr>"
    unfolding w2_def by (simp add: repair_in_result state_repair s1)
  have p2: "players w2 = players w"
    unfolding w2_def by (simp add: repair_frame p1)
  have r: "fst (repair_in vr 30 w1) = 30"
    by (simp add: repair_in_result s1)
  have w3: "w3 = destroy vr (set_vehicle vr
                   (applyDamageVisuals ((vehicles w2 vr)\<lparr> state := (state (vehicles w2 vr))
                        \<lparr> health := 0, damaged := True \<rparr> \<rparr>)) w2)"
    unfolding w3_def by (simp add: takeDamage_fatal s2 Let_def)
  have h3: "health (state (vehicles w3 vr)) = 0"
    unfolding w3 by (simp add: destroy_health applyDamageVisuals_def)
  have m3: "body_material (vehicles w3 vr) = \<lparr> color = 0x111111, roughness = 1, metalness = 0 \<rparr>"
    unfolding w3 by (rule destroy_vehicle_material)
  have e3: "driver (state (vehicles w3 vr)) = None \<and> \<not> engineOn (state (vehicles w3 vr)) \<and>
            \<not> isInVehicle (players w3 p) \<and> currentVehicle (players w3 p) = None"
    if "driver (state (vehicles w vr)) = Some (PlayerDriver p)"
       "isInVehicle (players w p)" "currentVehicle (players w p) = Some vr"
    unfolding w3
    by (rule destroy_ejects) (simp_all add: applyDamageVisuals_def s2 p2 that)
  show ?thesis
    using s1 s2 r w3 h3 m3 e3
    unfolding Let_def w1_def [symmetric] w2_def [symmetric] w3_def [symmetric]
    by simp
qed

theorem damage_repair_scenario_witness:
  "health (state (vehicles occupied_world 0)) = 100 \<and>
   driver (state (vehicles occupied_world 0)) = Some (PlayerDriver 1) \<and>
   isInVehicle (players occupied_world 1) \<and> currentVehicle (players occupied_world 1) = Some 0 \<and>
   health (state (vehicles (takeDamage 0 60 occupied_world) 0)) = 40 \<and>
   fst (repair_in 0 30 (takeDamage 0 60 occupied_world)) = 30 \<and>
   driver (state (vehicles (takeDamage 0 100 (snd (repair_in 0 30 (takeDamage 0 60 occupied_world)))) 0)) = None \<and>
   \<not> isInVehicle (players (takeDamage 0 100 (snd (repair_in 0 30 (takeDamage 0 60 occupied_world)))) 1)"
proof -
  have e: "driver (state (vehicles occupied_world 0)) = Some (PlayerDriver 1) \<and>
     isInVehicle (players occupied_world 1) \<and> currentVehicle (players occupied_world 1) = Some 0"
    unfolding occupied_world_def
    by (rule enterVehicle_entered) (simp add: sedan_players Player_new_def)
  have h: "health (state (vehicles occupied_world 0)) = 100"
    by (simp add: occupied_world_def enterVehicle_def Let_def sedan_players Player_new_def sedan_vehicle)
  show ?thesis
    using e h damage_repair_scenario [OF h, where p = 1]
    unfolding Let_def by blast
qed

subsection \<open>Entering a vehicle (C1)\<close>

text \<open>
  C1, as the code has it. \<open>enterVehicle\<close> changes nothing exactly when the vehicle argument is
  missing or the requesting player is already in a vehicle. In every other case, also when
  the vehicle already has a driver, the requester becomes the driver: the vehicle's driver
  reference is the requester, who is in the vehicle with it as current vehicle.
\<close>

theorem enterVehicle_guard:
  "(vo = None \<or> isInVehicle (players w p) \<longrightarrow> enterVehicle p vo w = w) \<and>
   (vo = Some vr \<and> \<not> isInVehicle (players w p) \<longrightarrow>
      driver (state (vehicles (enterVehicle p vo w) vr)) = Some (PlayerDriver p) \<and>
      isInVehicle (players (enterVehicle p vo w) p) \<and>
      currentVehicle (players (enterVehicle p vo w) p) = Some vr)"
  using enterVehicle_entered [of w p vr]
  by (auto simp: enterVehicle_def split: option.splits)

theorem enterVehicle_guard_witness:
  "\<not> isInVehicle (players occupied_world 2) \<and>
   driver (state (vehicles (enterVehicle 2 (Some 0) occupied_world) 0)) = Some (PlayerDriver 2) \<and>
   isInVehicle (players (enterVehicle 2 (Some 0) occupied_world) 2) \<and>
   enterVehicle 1 (Some 0) occupied_world = occupied_world \<and>
   enterVehicle 2 None occupied_world = occupied_world"
proof -
  have a: "\<not> isInVehicle (players occupied_world 2)"
    by (simp add: occupied_world_def enterVehicle_def Let_def sedan_players Player_new_def)
  have b: "isInVehicle (players occupied_world 1)"
    by (simp add: occupied_world_def enterVehicle_def Let_def sedan_players Player_new_def)
  show ?thesis
    using a b enterVehicle_guard [of "Some 0" occupied_world 2 0]
      enterVehicle_guard [of "Some 0" occupied_world 1 0]
      enterVehicle_guard [of None occupied_world 2 0]
    by blast
qed

text \<open>
  C1 as stated fails: vehicle 0 is driven by player 1 and player 2 is on foot; after player 2
  enters, the driver reference is player 2 and player 2 is in the vehicle.
\<close>

theorem enterVehicle_occupied_counterexample:
  "driver (state (vehicles occupied_world 0)) = Some (PlayerDriver 1) \<and>
   \<not> isInVehicle (players occupied_world 2) \<and>
   driver (state (vehicles (enterVehicle 2 (Some 0) occupied_world) 0)) \<noteq>
     driver (state (vehicles occupied_world 0)) \<and>
   isInVehicle (players (enterVehicle 2 (Some 0) occupied_world) 2) \<and>
   currentVehicle (players (enterVehicle 2 (Some 0) occupied_world) 2) = Some 0"
proof -
  have a: "\<not> isInVehicle (players occupied_world 2)"
    by (simp add: occupied_world_def enterVehicle_def Let_def sedan_players Player_new_def)
  have b: "driver (state (vehicles occupied_world 0)) = Some (PlayerDriver 1)"
    unfolding occupied_world_def
    using enterVehicle_entered [of sedan_world 1 0]
    by (simp add: sedan_players Player_new_def)
  show ?thesis
    using a b enterVehicle_entered [OF a, of 0] by simp
qed

subsection \<open>Fuel and the engine (C5)\<close>

text \<open>
  C5, as the code has it. While the engine is on, an update sets the fuel to
  \<open>max(0, fuel - (0.01 * dt + throttle * 0.05 * dt))\<close>, which is strictly less than before
  when \<open>dt > 0\<close>, the throttle is not negative and fuel is left; after the update the engine
  is on exactly if fuel is left, so the update in which the fuel reaches 0 switches the
  engine off. Updates keep a stopped engine off and its fuel unchanged. The engine is
  started again by \<open>applyControls\<close> as soon as throttle or brake is positive, whatever the
  fuel level.
\<close>

theorem fuel_and_engine:
  "(chassisBody v = Some cb \<and> engineOn (state v) \<longrightarrow>
      fuel (state (Vehicle_update dt bs v))
        = max 0 (fuel (state v) - (0.01 * dt + throttle (controls v) * 0.05 * dt)) \<and>
      (0 < dt \<and> 0 \<le> throttle (controls v) \<and> 0 < fuel (state v) \<longrightarrow>
         fuel (state (Vehicle_update dt bs v)) < fuel (state v)) \<and>
      (engineOn (state (Vehicle_update dt bs v)) \<longleftrightarrow> 0 < fuel (state (Vehicle_update dt bs v)))) \<and>
   (\<not> engineOn (state v) \<longrightarrow>
      \<not> engineOn (state (Vehicle_update dt bs v)) \<and>
      fuel (state (Vehicle_update dt bs v)) = fuel (state v)) \<and>
   (\<not> engineOn (state v) \<and> (0 < throttle c \<or> 0 < brake c) \<longrightarrow>
      engineOn (state (applyControls c v)) \<and>
      fuel (state (applyControls c v)) = fuel (state v))"
proof -
  have pos: "0 < 0.01 * dt + throttle (controls v) * 0.05 * dt"
    if "0 < dt" "0 \<le> throttle (controls v)"
  proof -
    have "0 \<le> throttle (controls v) * 0.05 * dt"
      using that by simp
    moreover have "0 < 0.01 * dt"
      using that by simp
    ultimately show ?thesis by linarith
  qed
  show ?thesis
    using pos
    by (auto simp: state_Vehicle_update_on state_Vehicle_update_off state_applyControls max_def)
qed

theorem fuel_and_engine_witness:
  "engineOn (state (setDriver (PlayerDriver 1) (vehicles sedan_world 0))) \<and>
   fuel (state (Vehicle_update 100 (bodies (physics sedan_world))
      (setDriver (PlayerDriver 1) (vehicles sedan_world 0)))) = 99 \<and>
   \<not> engineOn (state dry_sedan) \<and>
   \<not> engineOn (state (Vehicle_update 1 (bodies (physics sedan_world)) dry_sedan)) \<and>
   engineOn (state (applyControls full_throttle dry_sedan))"
proof -
  have a: "chassisBody (setDriver (PlayerDriver 1) (vehicles sedan_world 0)) = Some 20
           \<and> engineOn (state (setDriver (PlayerDriver 1) (vehicles sedan_world 0)))"
    by (simp add: setDriver_def startEngine_def sedan_vehicle)
  have b: "\<not> engineOn (state dry_sedan)"
    by (simp add: dry_sedan_state)
  have c: "0 < throttle full_throttle"
    by (simp add: full_throttle_def)
  have f: "fuel (state (setDriver (PlayerDriver 1) (vehicles sedan_world 0))) = 100 \<and>
           throttle (controls (setDriver (PlayerDriver 1) (vehicles sedan_world 0))) = 0"
    by (simp add: setDriver_def startEngine_def sedan_vehicle)
  show ?thesis
    using a b c f
      fuel_and_engine [of "setDriver (PlayerDriver 1) (vehicles sedan_world 0)" 20 100
                          "bodies (physics sedan_world)" full_throttle]
      fuel_and_engine [of dry_sedan 20 1 "bodies (physics sedan_world)" full_throttle]
    by simp
qed

text \<open>
  C5 as stated fails: the sedan has run dry and its engine has stopped; with no fuel added,
  full throttle starts the engine again, and the next update stops it a second time.
\<close>

theorem engine_restart_counterexample:
  "\<not> engineOn (state dry_sedan) \<and> fuel (state dry_sedan) = 0 \<and>
   engineOn (state (applyControls full_throttle dry_sedan)) \<and>
   fuel (state (applyControls full_throttle dry_sedan)) = 0 \<and>
   \<not> engineOn (state (Vehicle_update 1 (bodies (physics sedan_world))
                        (applyControls full_throttle dry_sedan)))"
proof -
  have cb: "chassisBody (applyControls full_throttle dry_sedan) = Some 20"
    by (simp add: applyControls_def Let_def updateBrakeLights_def startEngine_def dry_sedan_chassis)
  have th: "throttle (controls (applyControls full_throttle dry_sedan)) = 1"
    by (simp add: applyControls_def Let_def updateBrakeLights_def startEngine_def full_throttle_def)
  have on: "engineOn (state (applyControls full_throttle dry_sedan))"
    by (simp add: state_applyControls full_throttle_def)
  show ?thesis
    using on
    by (simp add: state_Vehicle_update_on [OF cb on] th)
       (simp add: state_applyControls dry_sedan_state)
qed

subsection \<open>The render link overwrites the collision tag (C2)\<close>

text \<open>
  C2. \<open>Physics.addObject(mesh, body)\<close> replaces the body's \<open>userData\<close> by an object that
  holds the mesh only, so the body passes the \<open>userData.type\<close> test for no tag. The chassis
  body of a vehicle is tagged \<open>{ type: 'vehicle', ... }\<close> by \<open>createVehiclePhysics\<close> before
  it is linked, and after the call it holds the mesh only: the vehicle test of the collision
  and ray dispatch fails on it, and a player whose four rays all hit the chassis does not
  enter. After any run of registrations on a physics system that had linked nothing, no
  linked body passes the test.
\<close>

theorem addObject_discards_userData:
  "userData (bodies (addObject m b ph) b) = Some [(''mesh'', UdMesh m)] \<and>
   \<not> userData_type_is t (bodies (addObject m b ph) b) \<and>
   userData (bodies (physics (createVehiclePhysics vr ident cb w)) cb)
     = Some [(''mesh'', UdMesh (group (vehicles w vr)))] \<and>
   \<not> userData_type_is ''vehicle'' (bodies (physics (createVehiclePhysics vr ident cb w)) cb) \<and>
   checkForNearbyVehicles p (\<lambda>_. Some cb) (createVehiclePhysics vr ident cb w)
     = createVehiclePhysics vr ident cb w \<and>
   (objects ph = [] \<longrightarrow>
      (\<forall>(m', b') \<in> set (objects (addObjects regs ph)).
          \<not> userData_type_is t (bodies (addObjects regs ph) b')))"
proof -
  have "linked_untagged (addObjects regs ph)" if "objects ph = []"
    using that by (intro linked_untagged_addObjects) (simp add: linked_untagged_def)
  then show ?thesis
    by (auto simp: userData_addObject chassis_after_createVehiclePhysics userData_type_is_def
        linked_untagged_def checkForNearbyVehicles_def upt_0_4)
qed

theorem addObject_discards_userData_witness:
  "objects (physics start_world) = [] \<and>
   \<not> userData_type_is ''vehicle''
      (bodies (addObjects [(10, 20), (11, 21)] (physics start_world)) 21) \<and>
   \<not> userData_type_is ''vehicle''
      (bodies (addObjects [(10, 20), (11, 21)] (physics start_world)) 20)"
proof -
  have e: "objects (physics start_world) = []"
    by (simp add: start_world_def)
  have o: "objects (addObjects [(10, 20), (11, 21)] (physics start_world)) = [(10, 20), (11, 21)]"
    by (simp add: objects_addObject e)
  show ?thesis
    using e o
      addObject_discards_userData [of 0 0 "physics start_world" "''vehicle''" 0 "[]" 0 start_world 0
         "[(10, 20), (11, 21)]"]
    by simp
qed


subsection \<open>Stamina (C6)\<close>




subsection \<open>Movement speed on foot (C10)\<close>

text \<open>
  C10, evaluated on the code. The player holds forward and sprint with the camera angle 0;
  \<open>runSpeed\<close> is 9 and \<open>walkSpeed\<close> is 5. With full stamina the velocity handed to the
  body is \<open>(0, -16.2)\<close> in the horizontal plane, of magnitude 16.2 and not 9: the controls
  have already scaled the unit direction by 1.8. With stamina 0 it is \<open>(0, -9)\<close>, of
  magnitude 9 and not 5.
\<close>

theorem sprint_velocity_evaluation:
  "runSpeed (players sprint_world 0) = 9 \<and> walkSpeed (players sprint_world 0) = 5 \<and>
   vx (velocity (bodies (physics (world_of (Player_update (1 / 60) no_rays 0 sprint_world))) 100)) = 0 \<and>
   vz (velocity (bodies (physics (world_of (Player_update (1 / 60) no_rays 0 sprint_world))) 100)) = - 16.2 \<and>
   stamina (stats (players tired_sprint_world 0)) = 0 \<and>
   vx (velocity (bodies (physics (world_of (Player_update (1 / 60) no_rays 0 tired_sprint_world))) 100)) = 0 \<and>
   vz (velocity (bodies (physics (world_of (Player_update (1 / 60) no_rays 0 tired_sprint_world))) 100)) = - 9"
proof -
  have s: "\<not> isInVehicle (players sprint_world 0)"
          "\<not> act_enterVehicle (actions (p_controls (players sprint_world 0)))"
    by (simp_all add: sprint_world_player sprint_forward_actions Player_new_def)
  have t: "\<not> isInVehicle (players tired_sprint_world 0)"
          "\<not> act_enterVehicle (actions (p_controls (players tired_sprint_world 0)))"
    by (simp_all add: tired_sprint_world_player sprint_forward_actions Player_new_def)
  have s': "\<not> isInVehicle (players (world_of (Player_update (1 / 60) no_rays 0 sprint_world)) 0)"
    by (simp add: Player_update_quiet(3) [OF s])
  have t': "\<not> isInVehicle (players (world_of (Player_update (1 / 60) no_rays 0 tired_sprint_world)) 0)"
    by (simp add: Player_update_quiet(3) [OF t])
  have sv: "velocity (bodies (physics (world_of (Player_update (1 / 60) no_rays 0 sprint_world))) 100)
              = \<lparr> vx = 0, vy = 0, vz = - 16.2 \<rparr>"
    using velocity_Player_update_onFoot [OF s(1) s']
    by (simp add: sprint_world_player rotatedDirection_sprint_forward sprint_forward_actions
        Player_new_def)
  have tv: "velocity (bodies (physics (world_of (Player_update (1 / 60) no_rays 0 tired_sprint_world))) 100)
              = \<lparr> vx = 0, vy = 0, vz = - 9 \<rparr>"
    using velocity_Player_update_onFoot [OF t(1) t']
    by (simp add: tired_sprint_world_player rotatedDirection_sprint_forward sprint_forward_actions
        Player_new_def)
  show ?thesis
    by (simp add: sv tv) (simp add: sprint_world_player tired_sprint_world_player Player_new_def)
qed

subsection \<open>Starting a mission (C3)\<close>

text \<open>
  C3. While a mission is active, \<open>startMission(m)\<close> returns false and leaves the whole state
  (the active mission, every mission's status, all lists) as it was. When no mission is
  active it returns true, and its result is \<open>m.initialize()\<close> run on the state in which \<open>m\<close> is
  the active mission and has status active. When the mission has no \<open>onStart\<close> callback, or
  the callback hands back a state in which \<open>m\<close> is still the active mission, \<open>m\<close> is the
  active mission with status active when \<open>startMission\<close> returns.
\<close>

theorem startMission_one_active:
  "(activeMission (msys g) \<noteq> None \<longrightarrow> startMission H m g = (False, g)) \<and>
   (activeMission (msys g) = None \<longrightarrow>
      startMission H m g =
        (True, Mission_initialize H m (upd_mission m (\<lambda>M. M\<lparr> status := Active \<rparr>)
                  (g\<lparr> msys := (msys g)\<lparr> activeMission := Some m \<rparr> \<rparr>)))) \<and>
   (activeMission (msys g) = None \<and> onStart_keeps_active H m g \<longrightarrow>
      fst (startMission H m g) \<and>
      activeMission (msys (snd (startMission H m g))) = Some m \<and>
      status (mission_store (snd (startMission H m g)) m) = Active)"
  using startMission_rejected [of g H m] startMission_accepted [of g H m]
    startMission_activates [of g H m]
  by simp

theorem startMission_one_active_witness:
  "activeMission (msys delivery_game) = None \<and>
   fst (startMission sample_hooks 0 delivery_game) \<and>
   activeMission (msys (snd (startMission sample_hooks 0 delivery_game))) = Some 0 \<and>
   status (mission_store (snd (startMission sample_hooks 0 delivery_game)) 0) = Active \<and>
   activeMission (msys started_game) \<noteq> None \<and>
   startMission sample_hooks 0 started_game = (False, started_game)"
proof -
  have k: "onStart_keeps_active sample_hooks 0 delivery_game"
    by (rule delivery_onStart_keeps) (simp add: delivery_game_facts deliveryMission_def)
  have b: "activeMission (msys started_game) \<noteq> None"
    by (simp add: started_game_facts)
  show ?thesis
    using k b delivery_game_facts(1)
      startMission_one_active [of delivery_game sample_hooks 0]
      startMission_one_active [of started_game sample_hooks 0]
    by blast
qed

subsection \<open>The time limit (C4)\<close>

text \<open>
  C4. The mission clock only runs in \<open>MissionSystem.update\<close>, which updates the active
  mission. When the elapsed time of the active mission, with status active and a time limit
  of 180, reaches the limit in a call, that call fails the mission: its status is failed,
  the player is shown the reason ``Time expired'', no mission is active, and neither the
  world (the player's money and inventory) nor the completed list has changed, so no reward
  was handed out; the call itself then throws on reading the checkpoints of the cleared
  active mission and skips the rest of its work. Over a run of calls from the start of the
  mission in which the mission is left alone (no \<open>onUpdate\<close> callback, the player alive and
  in a vehicle if the mission asks for one, no objective's automatic condition holding, the
  player in none of its checkpoints, no marker started): once the summed frame lengths
  reach 180 (181 seconds in particular), the mission has failed in this way and stays so
  over the rest of the run, and the world is what the rest of the game made of it. As long
  as the summed frame lengths (none negative) stay below 180, the mission is still active
  with the sum as its elapsed time, and nothing has been shown to the player.
\<close>

theorem time_expired_fails:
  "(activeMission (msys g) = Some m \<and> status (mission_store g m) = Active \<and>
    timeLimit (mission_store g m) = 180 \<and> 180 \<le> elapsedTime (mission_store g m) + dt \<longrightarrow>
      MissionSystem_update H dt now g = Thrown (game_of (MissionSystem_update H dt now g)) \<and>
      status (mission_store (game_of (MissionSystem_update H dt now g)) m) = Failed \<and>
      notifications (msys (game_of (MissionSystem_update H dt now g)))
        = notifications (msys g) @ [MissionFailedNote m ''Time expired''] \<and>
      activeMission (msys (game_of (MissionSystem_update H dt now g))) = None \<and>
      completedMissions (msys (game_of (MissionSystem_update H dt now g))) = completedMissions (msys g) \<and>
      world (game_of (MissionSystem_update H dt now g)) = world g) \<and>
   (activeMission (msys g) = Some m \<and> status (mission_store g m) = Active \<and>
    timeLimit (mission_store g m) = 180 \<and> elapsedTime (mission_store g m) = 0 \<and>
    left_alone_run H m frames g \<and> 180 \<le> sum_list (map fr_deltaTime frames) \<longrightarrow>
      status (mission_store (MissionSystem_updates H frames g) m) = Failed \<and>
      notifications (msys (MissionSystem_updates H frames g))
        = notifications (msys g) @ [MissionFailedNote m ''Time expired''] \<and>
      activeMission (msys (MissionSystem_updates H frames g)) = None \<and>
      completedMissions (msys (MissionSystem_updates H frames g)) = completedMissions (msys g) \<and>
      world (MissionSystem_updates H frames g) = fold fr_before frames (world g)) \<and>
   (activeMission (msys g) = Some m \<and> status (mission_store g m) = Active \<and>
    timeLimit (mission_store g m) = 180 \<and> elapsedTime (mission_store g m) = 0 \<and>
    left_alone_run H m frames g \<and> (\<forall>fr \<in> set frames. 0 \<le> fr_deltaTime fr) \<and>
    sum_list (map fr_deltaTime frames) < 180 \<longrightarrow>
      status (mission_store (MissionSystem_updates H frames g) m) = Active \<and>
      activeMission (msys (MissionSystem_updates H frames g)) = Some m \<and>
      elapsedTime (mission_store (MissionSystem_updates H frames g) m)
        = sum_list (map fr_deltaTime frames) \<and>
      notifications (msys (MissionSystem_updates H frames g)) = notifications (msys g) \<and>
      completedMissions (msys (MissionSystem_updates H frames g)) = completedMissions (msys g) \<and>
      world (MissionSystem_updates H frames g) = fold fr_before frames (world g))"
proof -
  let ?r = "MissionSystem_update H dt now g"
  let ?G = "MissionSystem_updates H frames g"
  have one: "?r = Thrown (game_of ?r) \<and>
      status (mission_store (game_of ?r) m) = Failed \<and>
      notifications (msys (game_of ?r)) = notifications (msys g) @ [MissionFailedNote m ''Time expired''] \<and>
      activeMission (msys (game_of ?r)) = None \<and>
      completedMissions (msys (game_of ?r)) = completedMissions (msys g) \<and>
      world (game_of ?r) = world g"
    if a: "activeMission (msys g) = Some m" "status (mission_store g m) = Active"
       and l: "timeLimit (mission_store g m) = 180"
       and e: "180 \<le> elapsedTime (mission_store g m) + dt"
  proof -
    have l0: "0 < timeLimit (mission_store g m)"
      using l by simp
    have e0: "timeLimit (mission_store g m) \<le> elapsedTime (mission_store g m) + dt"
      using l e by simp
    show ?thesis
      unfolding expired_frame [OF a l0 e0] by (simp add: game_of_def)
  qed
  have late: "status (mission_store ?G m) = Failed \<and>
      notifications (msys ?G) = notifications (msys g) @ [MissionFailedNote m ''Time expired''] \<and>
      activeMission (msys ?G) = None \<and>
      completedMissions (msys ?G) = completedMissions (msys g) \<and>
      world ?G = fold fr_before frames (world g)"
    if "activeMission (msys g) = Some m" "status (mission_store g m) = Active"
       "timeLimit (mission_store g m) = 180" "elapsedTime (mission_store g m) = 0"
       "left_alone_run H m frames g" "180 \<le> sum_list (map fr_deltaTime frames)"
    using that by (intro timed_run) simp_all
  have early: "status (mission_store ?G m) = Active \<and>
      activeMission (msys ?G) = Some m \<and>
      elapsedTime (mission_store ?G m) = sum_list (map fr_deltaTime frames) \<and>
      notifications (msys ?G) = notifications (msys g) \<and>
      completedMissions (msys ?G) = completedMissions (msys g) \<and>
      world ?G = fold fr_before frames (world g)"
    if "activeMission (msys g) = Some m" "status (mission_store g m) = Active"
       "timeLimit (mission_store g m) = 180" "elapsedTime (mission_store g m) = 0"
       "left_alone_run H m frames g" "\<forall>fr \<in> set frames. 0 \<le> fr_deltaTime fr"
       "sum_list (map fr_deltaTime frames) < 180"
  proof -
    have "status (mission_store ?G m) = Active \<and>
      activeMission (msys ?G) = Some m \<and>
      elapsedTime (mission_store ?G m)
        = elapsedTime (mission_store g m) + sum_list (map fr_deltaTime frames) \<and>
      notifications (msys ?G) = notifications (msys g) \<and>
      completedMissions (msys ?G) = completedMissions (msys g) \<and>
      world ?G = fold fr_before frames (world g)"
      using that by (intro early_run) simp_all
    then show ?thesis
      using that(4) by simp
  qed
  show ?thesis
    using one late early by blast
qed

theorem time_expired_fails_witness:
  "activeMission (msys started_game) = Some 0 \<and>
   timeLimit (mission_store started_game 0) = 180 \<and>
   left_alone_run sample_hooks 0 (replicate 181 (still_frame 1)) started_game \<and>
   sum_list (map fr_deltaTime (replicate 181 (still_frame 1))) = 181 \<and>
   status (mission_store (MissionSystem_updates sample_hooks (replicate 181 (still_frame 1)) started_game) 0)
     = Failed \<and>
   notifications (msys (MissionSystem_updates sample_hooks (replicate 181 (still_frame 1)) started_game))
     = [MissionFailedNote 0 ''Time expired''] \<and>
   world (MissionSystem_updates sample_hooks (replicate 181 (still_frame 1)) started_game) = start_world \<and>
   status (mission_store (MissionSystem_updates sample_hooks (replicate 179 (still_frame 1)) started_game) 0)
     = Active \<and>
   elapsedTime (mission_store (MissionSystem_updates sample_hooks (replicate 179 (still_frame 1)) started_game) 0)
     = 179 \<and>
   MissionSystem_update sample_hooks 181 (\<lambda>_. 0) started_game
     = Thrown (game_of (MissionSystem_update sample_hooks 181 (\<lambda>_. 0) started_game)) \<and>
   status (mission_store (game_of (MissionSystem_update sample_hooks 181 (\<lambda>_. 0) started_game)) 0)
     = Failed"
proof -
  have s: "sum_list (map fr_deltaTime (replicate n (still_frame 1))) = real n" for n
    by (simp add: sum_list_replicate still_frame_def)
  have w: "fold fr_before (replicate n (still_frame 1)) start_world = start_world" for n
    by (induction n) (simp_all add: still_frame_def)
  have a: "activeMission (msys started_game) = None \<or>
           activeMission (msys started_game) = Some 0 \<and> status (mission_store started_game 0) = Active \<and>
           0 < timeLimit (mission_store started_game 0)"
    by (simp add: started_game_facts)
  have la: "left_alone_run sample_hooks 0 (replicate n (still_frame 1)) started_game" for n
    by (rule still_run [OF started_game_left_alone a]) (simp add: still_frame_def)
  have nn: "\<forall>fr \<in> set (replicate 179 (still_frame 1)). 0 \<le> fr_deltaTime fr"
    by (simp add: still_frame_def)
  have f: "activeMission (msys started_game) = Some 0" "status (mission_store started_game 0) = Active"
          "timeLimit (mission_store started_game 0) = 180" "elapsedTime (mission_store started_game 0) = 0"
          "notifications (msys started_game) = []" "world started_game = start_world"
    by (simp_all add: started_game_facts)
  have long: "status (mission_store (MissionSystem_updates sample_hooks (replicate 181 (still_frame 1)) started_game) 0)
     = Failed \<and>
   notifications (msys (MissionSystem_updates sample_hooks (replicate 181 (still_frame 1)) started_game))
     = [MissionFailedNote 0 ''Time expired''] \<and>
   world (MissionSystem_updates sample_hooks (replicate 181 (still_frame 1)) started_game) = start_world"
    using time_expired_fails [where g = started_game and m = 0 and H = sample_hooks
        and frames = "replicate 181 (still_frame 1)"]
      f la [of 181] s [of 181] w [of 181]
    by simp
  have short: "status (mission_store (MissionSystem_updates sample_hooks (replicate 179 (still_frame 1)) started_game) 0)
     = Active \<and>
   elapsedTime (mission_store (MissionSystem_updates sample_hooks (replicate 179 (still_frame 1)) started_game) 0)
     = 179"
    using time_expired_fails [where g = started_game and m = 0 and H = sample_hooks
        and frames = "replicate 179 (still_frame 1)"]
      f la [of 179] s [of 179] nn
    by simp
  have single: "MissionSystem_update sample_hooks 181 (\<lambda>_. 0) started_game
     = Thrown (game_of (MissionSystem_update sample_hooks 181 (\<lambda>_. 0) started_game)) \<and>
   status (mission_store (game_of (MissionSystem_update sample_hooks 181 (\<lambda>_. 0) started_game)) 0)
     = Failed"
    using time_expired_fails [where g = started_game and m = 0 and H = sample_hooks
        and dt = 181 and now = "\<lambda>_. 0"] f
    by simp
  show ?thesis
    using long short single f la [of 181] s [of 181] by simp
qed

subsection \<open>Starting a finished mission again (C9)\<close>

text \<open>
  C9, as the code has it. \<open>startMission\<close> does not look at the mission's own status. In a
  run of \<open>startMission\<close> calls on a state with no active mission, the first call activates
  its mission whatever the status was, completed and failed included (under the condition
  on the \<open>onStart\<close> callback of C3), and the later calls of the run are refused. While a
  mission is active, a run of \<open>startMission\<close> calls changes nothing.
\<close>

theorem startMission_ignores_status:
  "(activeMission (msys g) = None \<and> onStart_keeps_active H m g \<longrightarrow>
      startMissions H (m # ms) g = snd (startMission H m g) \<and>
      status (mission_store (startMissions H (m # ms) g) m) = Active \<and>
      activeMission (msys (startMissions H (m # ms) g)) = Some m) \<and>
   (activeMission (msys g) \<noteq> None \<longrightarrow> startMissions H ms g = g)"
proof -
  have "startMissions H (m # ms) g = snd (startMission H m g)"
    if "activeMission (msys g) = None" "onStart_keeps_active H m g"
    unfolding startMissions_Cons
    by (rule startMissions_busy) (simp add: startMission_activates(1) [OF that])
  then show ?thesis
    using startMission_activates [of g H m] startMissions_busy [of g H ms]
    by simp
qed

theorem startMission_ignores_status_witness:
  "status (mission_store failed_game 0) = Failed \<and>
   activeMission (msys failed_game) = None \<and>
   status (mission_store (startMissions sample_hooks [0, 0] failed_game) 0) = Active \<and>
   activeMission (msys started_game) \<noteq> None \<and>
   startMissions sample_hooks [0, 0] started_game = started_game"
proof -
  have k: "onStart_keeps_active sample_hooks 0 failed_game"
    by (rule delivery_onStart_keeps) (rule failed_game_facts(3))
  have b: "activeMission (msys started_game) \<noteq> None"
    by (simp add: started_game_facts)
  show ?thesis
    using k b failed_game_facts(1,2)
      startMission_ignores_status [of failed_game sample_hooks 0 "[0]"]
      startMission_ignores_status [of started_game sample_hooks 0 "[0, 0]"]
    by blast
qed

text \<open>
  C9 as stated fails: the delivery mission has failed by its time limit, and in another
  state has been completed; in both, \<open>startMission\<close> makes it active again.
\<close>

theorem restart_finished_mission_counterexample:
  "status (mission_store failed_game 0) = Failed \<and>
   status (mission_store (snd (startMission sample_hooks 0 failed_game)) 0) = Active \<and>
   status (mission_store completed_game 0) = Completed \<and>
   status (mission_store (snd (startMission sample_hooks 0 completed_game)) 0) = Active"
proof -
  have kf: "onStart_keeps_active sample_hooks 0 failed_game"
    by (rule delivery_onStart_keeps) (rule failed_game_facts(3))
  have kc: "onStart_keeps_active sample_hooks 0 completed_game"
    by (rule delivery_onStart_keeps) (rule completed_game_facts(3))
  show ?thesis
    using failed_game_facts(1) completed_game_facts(1)
      startMission_activates(2) [OF failed_game_facts(2) kf]
      startMission_activates(2) [OF completed_game_facts(2) kc]
    by blast
qed


end
